theory Spec2Isabelle
  imports Main
begin

section \<open>Shared vocabulary\<close>

text \<open>
  Values of Go's \<open>error\<close> interface that come out of the standard library and of the
  collaborators the repository calls. Two of them are compared by identity in the
  sources (\<open>http.ErrServerClosed\<close>) or reported by the library when a context expires
  (\<open>context.DeadlineExceeded\<close>); every other one is only carried around.
\<close>

datatype go_error = ErrServerClosed | DeadlineExceeded | GoError string

text \<open>
  The variadic \<open>args ...interface{}\<close> of a format call (\<open>errors.Wrapf\<close>, the logger):
  the operands as the call site passes them, next to the format string. The formatted
  text itself is the library's business and is not computed here.
\<close>

datatype arg = AStr string | AInt int | ABytes string | AErr go_error

definition nl :: string where
  "nl = [CHR 0x0A]"

section \<open>httpclient/client.go\<close>

text \<open>\<open>*http.Request\<close> as \<open>Send\<close> builds it; \<open>Header.Add\<close> appends a pair.\<close>

record request =
  Method :: string
  URL :: string
  Header :: "(string \<times> string) list"
  ReqBody :: string

text \<open>
  \<open>*http.Response\<close> as \<open>Send\<close> reads it: the status code and what
  \<open>ioutil.ReadAll(resp.Body)\<close> gives once it is called.
\<close>

record response =
  resp_StatusCode :: int
  resp_Body :: "go_error + string"

text \<open>
  Modelled from the spec: the type \<open>apierror.APIError\<close>; the package \<open>apierror\<close> is
  not among the sources. The spec calls it a structured API error, decoded from the
  JSON error body and annotated with the status code. \<open>Send\<close> declares a variable of
  the type (its zero value), decodes JSON into it and assigns its field \<open>StatusCode\<close>.
  The record declares that field only, and every statement below is about the record
  scheme, so it holds whatever further fields the type has.
\<close>

record APIError =
  StatusCode :: int

text \<open>
  Modelled from the spec: the package variable \<open>apierror.EntityNotFoundErr\<close>, the
  distinguished "entity not found" error of the spec, is a value of its own. The other
  errors \<open>Send\<close> returns are an \<open>APIError\<close> value and the result of
  \<open>errors.Wrap\<close>/\<open>errors.Wrapf\<close>: the cause, the format string and the format operands.
\<close>

datatype 'z send_error =
    EntityNotFoundErr
  | APIErr "'z APIError_scheme"
  | Wrapped go_error string "arg list"

definition errors_Wrap :: "go_error \<Rightarrow> string \<Rightarrow> 'z send_error" where
  "errors_Wrap e msg = Wrapped e msg []"

definition errors_Wrapf :: "go_error \<Rightarrow> string \<Rightarrow> arg list \<Rightarrow> 'z send_error" where
  "errors_Wrapf e format args = Wrapped e format args"

text \<open>
  The standard library as \<open>Send\<close> calls it. \<open>json.Marshal\<close> returns bytes or an error.
  \<open>json.Unmarshal\<close> takes the bytes and the destination and returns an error or nil;
  the destination is passed by pointer, so its content after the call is part of the
  result, also when the call fails. \<open>http.NewRequest\<close> rejects a method or an address
  (\<open>NewRequest_error\<close>). \<open>http.DefaultClient\<close> stands in for a nil \<open>Doer\<close>.
\<close>

record ('p, 'r, 'z) lib =
  json_Marshal :: "'p \<Rightarrow> go_error + string"
  NewRequest_error :: "string \<Rightarrow> string \<Rightarrow> go_error option"
  http_DefaultClient :: "request \<Rightarrow> go_error + response"
  zero_APIError :: "'z APIError_scheme"
  Unmarshal_APIError :: "string \<Rightarrow> 'z APIError_scheme \<Rightarrow> go_error option \<times> 'z APIError_scheme"
  Unmarshal_respObj :: "string \<Rightarrow> 'r \<Rightarrow> go_error option \<times> 'r"

definition http_NewRequest ::
  "('p, 'r, 'z) lib \<Rightarrow> string \<Rightarrow> string \<Rightarrow> string \<Rightarrow> go_error + request" where
  "http_NewRequest L meth url body =
     (case NewRequest_error L meth url of
        Some e \<Rightarrow> Inl e
      | None \<Rightarrow> Inr \<lparr>Method = (if meth = [] then ''GET'' else meth), URL = url,
                      Header = [], ReqBody = body\<rparr>)"

record HTTPClient =
  Doer :: "(request \<Rightarrow> go_error + response) option"
  ServiceAddress :: string

definition getDoer ::
  "('p, 'r, 'z) lib \<Rightarrow> HTTPClient \<Rightarrow> (request \<Rightarrow> go_error + response)" where
  "getDoer L c = (case Doer c of None \<Rightarrow> http_DefaultClient L | Some d \<Rightarrow> d)"

text \<open>
  What a call of \<open>Send\<close> does to the outside, in order: the request handed to the
  \<open>Doer\<close>, the read of the response body, the two decodes, the deferred close.
\<close>

datatype call = Do request | ReadAll | UnmarshalAPIError string | UnmarshalRespObj string
  | BodyClose

text \<open>
  The result of \<open>Send\<close>: the returned error (\<open>None\<close> is nil), the destination
  \<open>respObj\<close> after the call (\<open>None\<close> is a nil \<open>respObj\<close>) and the calls made.
\<close>

record ('r, 'z) sent =
  err :: "'z send_error option"
  out :: "'r option"
  calls :: "call list"

definition fmt_marshal :: string where
  "fmt_marshal = ''HTTPClient.Send [JSON marshal payload]''"

definition fmt_request :: string where
  "fmt_request = ''HTTPClient.Send [Method: %s Path: %s ]''"

definition fmt_send :: string where
  "fmt_send = ''HTTPClient.Send [Send request]''"

definition fmt_read :: string where
  "fmt_read = ''HTTPClient.Send [ReadBody (Method: %s Path: %s Body: %s)]''"

definition fmt_unmarshal :: string where
  "fmt_unmarshal = ''CardsServiceClient.Send [UnmarshalResponseErr(status code: %v body: %s)]''"

text \<open>Lines 44 to 70 of \<open>Send\<close>: from the response to the returned error.\<close>

definition handle_response ::
  "('p, 'r, 'z) lib \<Rightarrow> string \<Rightarrow> string \<Rightarrow> string \<Rightarrow> response \<Rightarrow> 'r option \<Rightarrow> ('r, 'z) sent" where
  "handle_response L meth url reqBody resp respObj =
     (if resp_StatusCode resp = 404 then
        \<lparr>err = Some EntityNotFoundErr, out = respObj, calls = []\<rparr>
      else
        (case resp_Body resp of
           Inl e \<Rightarrow>
             \<lparr>err = Some (errors_Wrapf e fmt_read [AStr meth, AStr url, ABytes reqBody]),
              out = respObj, calls = [ReadAll]\<rparr>
         | Inr body \<Rightarrow>
             (if resp_StatusCode resp < 200 \<or> resp_StatusCode resp > 299 then
                (case Unmarshal_APIError L body (zero_APIError L) of
                   (Some e, verr) \<Rightarrow>
                     \<lparr>err = Some (errors_Wrapf e fmt_unmarshal
                                    [AInt (resp_StatusCode resp), ABytes body]),
                      out = respObj, calls = [ReadAll, UnmarshalAPIError body]\<rparr>
                 | (None, verr) \<Rightarrow>
                     \<lparr>err = Some (APIErr (verr\<lparr>StatusCode := resp_StatusCode resp\<rparr>)),
                      out = respObj, calls = [ReadAll, UnmarshalAPIError body]\<rparr>)
              else
                (case respObj of
                   None \<Rightarrow> \<lparr>err = None, out = None, calls = [ReadAll]\<rparr>
                 | Some dst \<Rightarrow>
                     (case Unmarshal_respObj L body dst of
                        (Some e, dst') \<Rightarrow>
                          \<lparr>err = Some (errors_Wrapf e fmt_unmarshal
                                         [AInt (resp_StatusCode resp), ABytes body]),
                           out = Some dst', calls = [ReadAll, UnmarshalRespObj body]\<rparr>
                      | (None, dst') \<Rightarrow>
                          \<lparr>err = None, out = Some dst',
                           calls = [ReadAll, UnmarshalRespObj body]\<rparr>)))))"

text \<open>
  \<open>(c *HTTPClient) Send(ctx, method, url, payload, respObj)\<close>. The context is not used
  by the body of the function. A nil \<open>payload\<close> is \<open>None\<close>; then \<open>reqBody\<close> stays the
  nil slice, which \<open>bytes.NewReader\<close> reads as the empty body.
\<close>

definition Send ::
  "('p, 'r, 'z) lib \<Rightarrow> HTTPClient \<Rightarrow> string \<Rightarrow> string \<Rightarrow> 'p option \<Rightarrow> 'r option \<Rightarrow> ('r, 'z) sent" where
  "Send L c meth url payload respObj =
     (case (case payload of None \<Rightarrow> Inr [] | Some p \<Rightarrow> json_Marshal L p) of
        Inl e \<Rightarrow> \<lparr>err = Some (errors_Wrap e fmt_marshal), out = respObj, calls = []\<rparr>
      | Inr reqBody \<Rightarrow>
          (case http_NewRequest L meth (ServiceAddress c @ url) reqBody of
             Inl e \<Rightarrow>
               \<lparr>err = Some (errors_Wrapf e fmt_request [AStr meth, AStr url]),
                out = respObj, calls = []\<rparr>
           | Inr req0 \<Rightarrow>
               (let req = req0\<lparr>Header := Header req0 @ [(''content-type'', ''application/json'')]\<rparr>
                in (case getDoer L c req of
                      Inl e \<Rightarrow>
                        \<lparr>err = Some (errors_Wrapf e fmt_send []), out = respObj,
                         calls = [Do req]\<rparr>
                    | Inr resp \<Rightarrow>
                        (let R = handle_response L meth url reqBody resp respObj
                         in R\<lparr>calls := Do req # calls R @ [BodyClose]\<rparr>)))))"

text \<open>The calls that hand a request to the \<open>Doer\<close>.\<close>

fun is_Do :: "call \<Rightarrow> bool" where
  "is_Do (Do req) = True"
| "is_Do c = False"

text \<open>
  An error is wrapped with call-site context identifying the method and the path when
  it is the result of a wrap whose format operands hold both. This reads what the wrap
  of \<open>Send\<close> adds; what the text of the cause says is the collaborator's.
\<close>

definition call_site_context :: "string \<Rightarrow> string \<Rightarrow> 'z send_error \<Rightarrow> bool" where
  "call_site_context meth url e =
     (case e of
        Wrapped cause format args \<Rightarrow> AStr meth \<in> set args \<and> AStr url \<in> set args
      | EntityNotFoundErr \<Rightarrow> False
      | APIErr verr \<Rightarrow> False)"

text \<open>
  The request \<open>Send\<close> hands to the \<open>Doer\<close> and its body: the payload marshalled (the
  empty body for a nil payload), the request built from the method, the service address
  followed by the path, and that body, and the content type added to its header.
\<close>

definition request_sent ::
  "('p, 'r, 'z) lib \<Rightarrow> HTTPClient \<Rightarrow> string \<Rightarrow> string \<Rightarrow> 'p option \<Rightarrow> string \<Rightarrow> request \<Rightarrow> bool" where
  "request_sent L c meth url payload reqBody req =
     ((case payload of None \<Rightarrow> Inr [] | Some p \<Rightarrow> json_Marshal L p) = Inr reqBody \<and>
      (\<exists>req0. http_NewRequest L meth (ServiceAddress c @ url) reqBody = Inr req0 \<and>
         req = req0\<lparr>Header := Header req0 @ [(''content-type'', ''application/json'')]\<rparr>))"

section \<open>service.go\<close>

subsection \<open>The response writer\<close>

text \<open>
  \<open>http.ResponseWriter\<close> as the handlers of \<open>service.go\<close> use it. \<open>Header().Set\<close>
  changes the header map; \<open>WriteHeader\<close> commits the status code and the header map
  (a second call changes nothing); \<open>Write\<close> commits status 200 first when nothing was
  committed; the server does the same when the handler returns without writing
  (\<open>finishRequest\<close>). Header names are kept as the handler spells them.
\<close>

record ResponseWriter =
  w_Header :: "string \<rightharpoonup> string"
  wroteHeader :: bool
  status :: int
  sent_Header :: "string \<rightharpoonup> string"
  written :: string

definition new_ResponseWriter :: ResponseWriter where
  "new_ResponseWriter =
     \<lparr>w_Header = Map.empty, wroteHeader = False, status = 0, sent_Header = Map.empty,
      written = []\<rparr>"

definition Header_Set :: "string \<Rightarrow> string \<Rightarrow> ResponseWriter \<Rightarrow> ResponseWriter" where
  "Header_Set k v w = w\<lparr>w_Header := (w_Header w)(k \<mapsto> v)\<rparr>"

definition WriteHeader :: "int \<Rightarrow> ResponseWriter \<Rightarrow> ResponseWriter" where
  "WriteHeader code w =
     (if wroteHeader w then w
      else w\<lparr>wroteHeader := True, status := code, sent_Header := w_Header w\<rparr>)"

definition Write :: "string \<Rightarrow> ResponseWriter \<Rightarrow> ResponseWriter" where
  "Write bs w =
     (let w' = (if wroteHeader w then w else WriteHeader 200 w)
      in w'\<lparr>written := written w' @ bs\<rparr>)"

definition finishRequest :: "ResponseWriter \<Rightarrow> ResponseWriter" where
  "finishRequest w = (if wroteHeader w then w else WriteHeader 200 w)"

text \<open>
  \<open>json.NewEncoder(w).Encode(v)\<close>: the value is marshalled first; on success the bytes
  and a newline are written, on failure nothing is. The handlers of \<open>service.go\<close> drop
  the error \<open>Encode\<close> returns.
\<close>

definition Encode :: "('x \<Rightarrow> go_error + string) \<Rightarrow> 'x \<Rightarrow> ResponseWriter \<Rightarrow> ResponseWriter" where
  "Encode marshal v w = (case marshal v of Inl e \<Rightarrow> w | Inr bs \<Rightarrow> Write (bs @ nl) w)"

subsection \<open>Events and handlers\<close>

datatype signal = SIGHUP | SIGINT | SIGQUIT | SIGKILL | SIGTERM

text \<open>
  The methods of \<open>http.Server\<close> that start and stop it. \<open>Shutdown\<close> carries the
  timeout of the context it is given, a \<open>time.Duration\<close> in nanoseconds; \<open>Close\<close> is
  the immediate close of the listeners and of every connection.
\<close>

datatype server_call = ListenAndServe | ListenAndServeTLS string string | Shutdown int | Close

text \<open>
  What the code of \<open>service.go\<close> does to the outside, in order: a call of the
  configured logger (format and operands), a call of a dependency probe (by name),
  \<open>signal.Notify\<close>, the start of the watcher goroutine, a call on the server.
\<close>

datatype event =
    Logf string "arg list"
  | ProbeCall string
  | SignalNotify "signal list"
  | GoWatcher
  | Server server_call

text \<open>
  An \<open>http.Handler\<close>: from the state of the world at request time and the request to
  the events of the call and the response writer after it.
\<close>

type_synonym 'w handler = "'w \<Rightarrow> request \<Rightarrow> ResponseWriter \<Rightarrow> event list \<times> ResponseWriter"

definition serve :: "'w handler \<Rightarrow> 'w \<Rightarrow> request \<Rightarrow> event list \<times> ResponseWriter" where
  "serve h w r = (case h w r new_ResponseWriter of (ev, rw) \<Rightarrow> (ev, finishRequest rw))"

definition MethodGet :: string where "MethodGet = ''GET''"
definition MethodPost :: string where "MethodPost = ''POST''"
definition MethodPut :: string where "MethodPut = ''PUT''"
definition MethodDelete :: string where "MethodDelete = ''DELETE''"

subsection \<open>Options\<close>

text \<open>
  \<open>Options\<close>. A dependency probe \<open>func() interface{}\<close> reads the world when it is
  called: \<open>'w \<Rightarrow> 'v\<close>. \<open>serveMux\<close> is an interface value (\<open>Add\<close>, \<open>ServeHTTP\<close>); the
  model keeps what the router holds, the registrations in the order of the \<open>Add\<close>
  calls, and leaves the matching of a request to the router. \<open>logger\<close> is kept as a
  value of a type \<open>'l\<close>; its calls are the \<open>Logf\<close> events.
\<close>

record ('w, 'v, 'l) Options =
  name :: string
  version :: string
  dependenciesInfo :: "string \<rightharpoonup> ('w \<Rightarrow> 'v)"
  params :: "string \<rightharpoonup> string"
  port :: int
  certFile :: string
  keyFile :: string
  serveMux :: "(string \<times> string \<times> 'w handler) list"
  httpsEnabled :: bool
  logger :: 'l

type_synonym ('w, 'v, 'l) Option = "('w, 'v, 'l) Options \<Rightarrow> ('w, 'v, 'l) Options"

definition Name :: "string \<Rightarrow> ('w, 'v, 'l) Option" where
  "Name n cfg = cfg\<lparr>name := n\<rparr>"

definition Version :: "string \<Rightarrow> ('w, 'v, 'l) Option" where
  "Version v cfg = cfg\<lparr>version := v\<rparr>"

definition DependencyInfo :: "string \<Rightarrow> ('w \<Rightarrow> 'v) \<Rightarrow> ('w, 'v, 'l) Option" where
  "DependencyInfo n f cfg = cfg\<lparr>dependenciesInfo := (dependenciesInfo cfg)(n \<mapsto> f)\<rparr>"

definition Param :: "string \<Rightarrow> string \<Rightarrow> ('w, 'v, 'l) Option" where
  "Param n val cfg = cfg\<lparr>params := (params cfg)(n \<mapsto> val)\<rparr>"

definition Port :: "int \<Rightarrow> ('w, 'v, 'l) Option" where
  "Port p cfg = cfg\<lparr>port := p\<rparr>"

definition Https :: "string \<Rightarrow> string \<Rightarrow> ('w, 'v, 'l) Option" where
  "Https cf kf cfg = cfg\<lparr>certFile := cf, keyFile := kf, httpsEnabled := True\<rparr>"

definition UseServeMux :: "(string \<times> string \<times> 'w handler) list \<Rightarrow> ('w, 'v, 'l) Option" where
  "UseServeMux mux cfg = cfg\<lparr>serveMux := mux\<rparr>"

definition Logger :: "'l \<Rightarrow> ('w, 'v, 'l) Option" where
  "Logger l cfg = cfg\<lparr>logger := l\<rparr>"

text \<open>
  Modelled from the spec: the router adapter that implements \<open>ServeMux\<close> for the
  default router (\<open>adoptPatRouter\<close>) is not among the sources. By the spec's section
  4.1, \<open>Add\<close> registers a handler for a method and a path pattern: the router
  receives one more registration.
\<close>

definition Add ::
  "(string \<times> string \<times> 'w handler) list \<Rightarrow> string \<Rightarrow> string \<Rightarrow> 'w handler \<Rightarrow>
   (string \<times> string \<times> 'w handler) list" where
  "Add mux meth pat h = mux @ [(meth, pat, h)]"

subsection \<open>NewService\<close>

text \<open>
  The value handed to the JSON encoder by the handler of \<open>/info\<close>: a
  \<open>map[string]interface{}\<close> whose values are strings, a \<open>map[string]string\<close>, and a
  \<open>map[string]interface{}\<close> of probe results (\<open>IAny\<close>).
\<close>

datatype 'v iface =
    IString string
  | IStrMap "string \<rightharpoonup> string"
  | IMap "string \<rightharpoonup> 'v iface"
  | IAny 'v

text \<open>
  What \<open>NewService\<close> takes from outside \<open>service.go\<close>: the default logger, the JSON
  encoder, the order in which \<open>range\<close> walks the probe map at a request (Go leaves it
  open, so it may differ from request to request), the handler of the metrics
  exporter, and the two handler wrappers of the package, which are declared in a file
  that is not among the sources.
\<close>

record ('w, 'v, 'l, 'a, 's) runtime =
  defaultLogger :: 'l
  json_Encode :: "'v iface \<Rightarrow> go_error + string"
  range_order :: "'w \<Rightarrow> (string \<rightharpoonup> ('w \<Rightarrow> 'v)) \<Rightarrow> (string \<times> ('w \<Rightarrow> 'v)) list"
  promhttp_Handler :: "'w handler"
  pkg_wrapAPIHandler :: "'l \<Rightarrow> 'a \<Rightarrow> 'w handler"
  pkg_streamWrapAPIHandler :: "'l \<Rightarrow> 's \<Rightarrow> 'w handler"

text \<open>
  A list of pairs enumerates a map when it holds every entry of the map once: what
  \<open>range\<close> over a Go map yields, in some order.
\<close>

definition enumerates :: "(string \<times> 'b) list \<Rightarrow> (string \<rightharpoonup> 'b) \<Rightarrow> bool" where
  "enumerates kds m = (distinct (map fst kds) \<and> map_of kds = m)"

record ('w, 'v, 'l, 'a, 's) service =
  options :: "('w, 'v, 'l) Options"
  s_wrapAPIHandler :: "'a \<Rightarrow> 'w handler"
  s_streamAPIHandler :: "'s \<Rightarrow> 'w handler"

definition health_handler :: "'w handler" where
  "health_handler w r rw = ([], WriteHeader 200 rw)"

text \<open>\<open>for name, d := range options.dependenciesInfo { dp[name] = d() }\<close>\<close>

fun range_loop ::
  "'w \<Rightarrow> (string \<times> ('w \<Rightarrow> 'v)) list \<Rightarrow> event list \<times> (string \<rightharpoonup> 'v iface) \<Rightarrow>
   event list \<times> (string \<rightharpoonup> 'v iface)" where
  "range_loop w [] acc = acc"
| "range_loop w ((n, d) # rest) (ev, dp) =
     range_loop w rest (ev @ [ProbeCall n], dp(n \<mapsto> IAny (d w)))"

definition info_value :: "('w, 'v, 'l) Options \<Rightarrow> (string \<rightharpoonup> 'v iface) \<Rightarrow> 'v iface" where
  "info_value opts dp =
     IMap [''name'' \<mapsto> IString (name opts),
           ''version'' \<mapsto> IString (version opts),
           ''params'' \<mapsto> IStrMap (params opts),
           ''dependencies'' \<mapsto> IMap dp]"

definition info_handler ::
  "('w, 'v, 'l, 'a, 's) runtime \<Rightarrow> ('w, 'v, 'l) Options \<Rightarrow> 'w handler" where
  "info_handler rt opts w r rw =
     (let rw1 = Header_Set ''content-type'' ''application/json'' rw
      in (case range_loop w (range_order rt w (dependenciesInfo opts)) ([], Map.empty) of
            (ev, dp) \<Rightarrow> (ev, Encode (json_Encode rt) (info_value opts dp) rw1)))"

definition default_Options :: "('w, 'v, 'l, 'a, 's) runtime \<Rightarrow> ('w, 'v, 'l) Options" where
  "default_Options rt =
     \<lparr>name = [], version = [], dependenciesInfo = Map.empty, params = Map.empty, port = 0,
      certFile = [], keyFile = [], serveMux = [], httpsEnabled = False,
      logger = defaultLogger rt\<rparr>"

text \<open>\<open>s.options.serveMux.Add(meth, pat, h)\<close>\<close>

definition mux_Add ::
  "string \<Rightarrow> string \<Rightarrow> 'w handler \<Rightarrow> ('w, 'v, 'l, 'a, 's) service \<Rightarrow> ('w, 'v, 'l, 'a, 's) service" where
  "mux_Add meth pat h s =
     s\<lparr>options := (options s)\<lparr>serveMux := Add (serveMux (options s)) meth pat h\<rparr>\<rparr>"

definition apply_Options ::
  "('w, 'v, 'l, 'a, 's) runtime \<Rightarrow> ('w, 'v, 'l) Option list \<Rightarrow> ('w, 'v, 'l) Options" where
  "apply_Options rt opts = foldl (\<lambda>cfg f. f cfg) (default_Options rt) opts"

definition NewService ::
  "('w, 'v, 'l, 'a, 's) runtime \<Rightarrow> ('w, 'v, 'l) Option list \<Rightarrow> ('w, 'v, 'l, 'a, 's) service" where
  "NewService rt opts =
     (let opts' = apply_Options rt opts;
          s = \<lparr>options = opts',
               s_wrapAPIHandler = pkg_wrapAPIHandler rt (logger opts'),
               s_streamAPIHandler = pkg_streamWrapAPIHandler rt (logger opts')\<rparr>
      in mux_Add MethodGet ''/metrics'' (promhttp_Handler rt)
           (mux_Add MethodGet ''/info'' (info_handler rt opts')
              (mux_Add MethodGet ''/health'' health_handler s)))"

subsection \<open>Route registration\<close>

definition Get :: "string \<Rightarrow> 'a \<Rightarrow> ('w, 'v, 'l, 'a, 's) service \<Rightarrow> ('w, 'v, 'l, 'a, 's) service" where
  "Get path h s = mux_Add MethodGet path (s_wrapAPIHandler s h) s"

definition Post :: "string \<Rightarrow> 'a \<Rightarrow> ('w, 'v, 'l, 'a, 's) service \<Rightarrow> ('w, 'v, 'l, 'a, 's) service" where
  "Post path h s = mux_Add MethodPost path (s_wrapAPIHandler s h) s"

definition Put :: "string \<Rightarrow> 'a \<Rightarrow> ('w, 'v, 'l, 'a, 's) service \<Rightarrow> ('w, 'v, 'l, 'a, 's) service" where
  "Put path h s = mux_Add MethodPut path (s_wrapAPIHandler s h) s"

definition Del :: "string \<Rightarrow> 'a \<Rightarrow> ('w, 'v, 'l, 'a, 's) service \<Rightarrow> ('w, 'v, 'l, 'a, 's) service" where
  "Del path h s = mux_Add MethodDelete path (s_wrapAPIHandler s h) s"

definition Stream :: "string \<Rightarrow> 's \<Rightarrow> ('w, 'v, 'l, 'a, 's) service \<Rightarrow> ('w, 'v, 'l, 'a, 's) service" where
  "Stream path h s = mux_Add MethodGet path (s_streamAPIHandler s h) s"

subsection \<open>Run\<close>


definition notified :: "signal list" where
  "notified = [SIGINT, SIGTERM]"



text \<open>
  \<open>Run\<close> on the calling goroutine; \<open>listen_err\<close> is what \<open>ListenAndServe\<close> or
  \<open>ListenAndServeTLS\<close> returns when it returns. The address of the server is
  \<open>fmt.Sprint(":", port)\<close> and its handler is the router.
\<close>

definition listen_call :: "('w, 'v, 'l, 'a, 's) service \<Rightarrow> server_call" where
  "listen_call s =
     (if httpsEnabled (options s)
      then ListenAndServeTLS (certFile (options s)) (keyFile (options s))
      else ListenAndServe)"

definition Run :: "('w, 'v, 'l, 'a, 's) service \<Rightarrow> go_error option \<Rightarrow> event list" where
  "Run s listen_err =
     [Logf (''[INFO] Start listening address :%v'' @ nl) [AInt (port (options s))],
      SignalNotify notified,
      GoWatcher,
      Server (listen_call s)]
     @ (case listen_err of
          None \<Rightarrow> []
        | Some e \<Rightarrow> (if e \<noteq> ErrServerClosed then [Logf (''[ERROR] %+v'' @ nl) [AErr e]] else []))"

text \<open>Which events start the listener, and which are the error line of the logger.\<close>

fun is_listen :: "event \<Rightarrow> bool" where
  "is_listen (Server ListenAndServe) = True"
| "is_listen (Server (ListenAndServeTLS cf kf)) = True"
| "is_listen e = False"

fun is_error_log :: "event \<Rightarrow> bool" where
  "is_error_log (Logf format args) = (format = ''[ERROR] %+v'' @ nl)"
| "is_error_log e = False"

subsection \<open>The API handler wrapper\<close>

text \<open>
  Modelled from the spec: the function \<open>wrapAPIHandler\<close> and the type \<open>APIHandler\<close>
  are declared in a file of the package that is not among the sources. Section 4.2 of
  the spec: the wrapper reads and decodes the request body (when present) into the
  handler's input, invokes the handler, on success serialises the output as JSON with
  status 200 and content type \<open>application/json\<close>, and on error maps the error to a
  status code and a structured JSON error body and logs it through the configured
  logger. A decode failure is 400, a domain "not found" 404, a domain validation
  failure 400 or 422 (the spec leaves the choice open: \<open>validation_status\<close>), an
  unclassified domain error 500, a recovered panic and anything else 500. The JSON
  codec is the library's and is taken as given.
\<close>

datatype domain_error = NotFound | ValidationFailure | Unclassified

datatype 'o handled = Returned 'o | Failed domain_error | Panicked

datatype failure = DecodeFailure go_error | Domain domain_error | EncodeFailure go_error | Panic

type_synonym ('w, 'i, 'o) APIHandler = "'w \<Rightarrow> 'i \<Rightarrow> 'o handled"

record ('i, 'o) codec =
  zero_input :: 'i
  decode_body :: "string \<Rightarrow> go_error + 'i"
  encode_value :: "'o \<Rightarrow> go_error + string"
  encode_error :: "int \<Rightarrow> failure \<Rightarrow> string"
  validation_status :: int

text \<open>
  Modelled from the spec: the error taxonomy of section 4.2, from a failure to the
  status code of the response.
\<close>

definition status_of :: "('i, 'o) codec \<Rightarrow> failure \<Rightarrow> int" where
  "status_of cd f =
     (case f of
        DecodeFailure e \<Rightarrow> 400
      | Domain NotFound \<Rightarrow> 404
      | Domain ValidationFailure \<Rightarrow> validation_status cd
      | Domain Unclassified \<Rightarrow> 500
      | EncodeFailure e \<Rightarrow> 500
      | Panic \<Rightarrow> 500)"

text \<open>
  Modelled from the spec: on error the wrapper logs the error and writes the status code
  and a structured JSON error body, once.
\<close>

definition respond_error ::
  "('i, 'o) codec \<Rightarrow> (failure \<Rightarrow> event) \<Rightarrow> failure \<Rightarrow> ResponseWriter \<Rightarrow> event list \<times> ResponseWriter" where
  "respond_error cd log f rw =
     ([log f],
      Write (encode_error cd (status_of cd f) f)
        (WriteHeader (status_of cd f) (Header_Set ''content-type'' ''application/json'' rw)))"

text \<open>
  Modelled from the spec: \<open>wrapAPIHandler\<close>, which is not among the sources, as
  section 4.2 describes it. An absent body leaves the handler's input at its zero
  value.
\<close>

definition wrapAPIHandler ::
  "('i, 'o) codec \<Rightarrow> (failure \<Rightarrow> event) \<Rightarrow> ('w, 'i, 'o) APIHandler \<Rightarrow> 'w handler" where
  "wrapAPIHandler cd log handler w r rw =
     (case (if ReqBody r = [] then Inr (zero_input cd) else decode_body cd (ReqBody r)) of
        Inl e \<Rightarrow> respond_error cd log (DecodeFailure e) rw
      | Inr input \<Rightarrow>
          (case handler w input of
             Panicked \<Rightarrow> respond_error cd log Panic rw
           | Failed de \<Rightarrow> respond_error cd log (Domain de) rw
           | Returned v \<Rightarrow>
               (case encode_value cd v of
                  Inl e \<Rightarrow> respond_error cd log (EncodeFailure e) rw
                | Inr bs \<Rightarrow>
                    ([], Write bs (WriteHeader 200
                           (Header_Set ''content-type'' ''application/json'' rw))))))"

text \<open>The domain handler that echoes its decoded input.\<close>

definition echo :: "('w, 'i, 'i) APIHandler" where
  "echo w input = Returned input"

text \<open>
  The law of the JSON library the echo property rests on: every value is encoded, and
  decoding the encoding gives the value back.
\<close>

definition json_roundtrip :: "('i, 'i) codec \<Rightarrow> bool" where
  "json_roundtrip cd = (\<forall>v. \<exists>bs. encode_value cd v = Inr bs \<and> decode_body cd bs = Inr v)"

section \<open>Test doubles\<close>

text \<open>
  Concrete collaborators for the closed instances below, after the mock transport of
  the spec's section 8: a transport that answers every request with a given status and
  body, one that fails every request, a destination \<open>struct { A int `json:"a"`; B int `json:"b"` }\<close>, an
  \<open>APIError\<close> with a message field, and the JSON library on the three documents the
  instances use and on a body that is not JSON. On the third document the decoder does
  what \<open>encoding/json\<close> documents for a value that does not fit its field: it skips
  that field, completes the rest as best it can and returns the error. For the service: a world that is the
  number of open database connections; a probe \<open>db\<close> that reports whether there is
  one, and one that returns a channel; an encoder stub that, as \<open>encoding/json\<close>
  does, rejects a value holding a channel with an unsupported-type error; and the JSON
  library on the two boolean literals.
\<close>

record APIErrorBody = APIError +
  Message :: string

record dest =
  A :: int
  B :: int

definition doc_message_x :: string where
  \<open>doc_message_x = ''{"message":"x"}''\<close>

definition doc_a_1 :: string where
  \<open>doc_a_1 = ''{"a":1}''\<close>

definition doc_a_1_b_x :: string where
  \<open>doc_a_1_b_x = ''{"a":1,"b":"x"}''\<close>

definition doc_html :: string where
  "doc_html = ''<html>Bad Gateway</html>''"

definition mock_lib :: "(bool, dest, unit APIErrorBody_ext) lib" where
  "mock_lib =
     \<lparr>json_Marshal = (\<lambda>b. Inr (if b then ''true'' else ''false'')),
      NewRequest_error =
        (\<lambda>m u. if m = ''BAD METHOD'' then Some (GoError ''net/http: invalid method'') else None),
      http_DefaultClient = (\<lambda>req. Inl (GoError ''connection refused'')),
      zero_APIError = \<lparr>StatusCode = 0, Message = []\<rparr>,
      Unmarshal_APIError = (\<lambda>b v.
         if b = doc_message_x then (None, v\<lparr>Message := ''x''\<rparr>)
         else (Some (GoError ''invalid character''), v)),
      Unmarshal_respObj = (\<lambda>b d.
         if b = doc_a_1 then (None, d\<lparr>A := 1\<rparr>)
         else if b = doc_a_1_b_x
           then (Some (GoError ''json: cannot unmarshal string into Go struct field .b of type int''),
                 d\<lparr>A := 1\<rparr>)
         else (Some (GoError ''invalid character''), d))\<rparr>"

definition mock_client :: "int \<Rightarrow> string \<Rightarrow> HTTPClient" where
  "mock_client code body =
     \<lparr>Doer = Some (\<lambda>req. Inr \<lparr>resp_StatusCode = code, resp_Body = Inr body\<rparr>),
      ServiceAddress = ''http://svc''\<rparr>"

definition failing_client :: HTTPClient where
  "failing_client =
     \<lparr>Doer = Some (\<lambda>req. Inl (GoError ''connection refused'')),
      ServiceAddress = ''http://svc''\<rparr>"

definition get_x :: request where
  "get_x = \<lparr>Method = ''GET'', URL = ''http://svc/x'',
            Header = [(''content-type'', ''application/json'')], ReqBody = []\<rparr>"

datatype probe_value = PBool bool | PChan

definition bool_codec :: "(bool, bool) codec" where
  "bool_codec =
     \<lparr>zero_input = False,
      decode_body = (\<lambda>s. if s = ''true'' then Inr True
                          else if s = ''false'' then Inr False
                          else Inl (GoError ''invalid character'')),
      encode_value = (\<lambda>b. Inr (if b then ''true'' else ''false'')),
      encode_error = (\<lambda>code f. ''{}''),
      validation_status = 400\<rparr>"

definition mock_log :: "failure \<Rightarrow> event" where
  "mock_log f = Logf ''[ERROR] %+v'' []"

definition mock_Encode :: "probe_value iface \<Rightarrow> go_error + string" where
  "mock_Encode v =
     (case v of
        IMap m \<Rightarrow>
          (case m ''dependencies'' of
             Some (IMap dp) \<Rightarrow>
               (case dp ''db'' of
                  Some (IAny PChan) \<Rightarrow> Inl (GoError ''json: unsupported type: chan int'')
                | _ \<Rightarrow> Inr ''{}'')
           | _ \<Rightarrow> Inr ''{}'')
      | _ \<Rightarrow> Inr ''{}'')"

definition mock_runtime ::
  "(nat, probe_value, unit, (nat, bool, bool) APIHandler, unit) runtime" where
  "mock_runtime =
     \<lparr>defaultLogger = (),
      json_Encode = mock_Encode,
      range_order = (\<lambda>w m. List.map_filter (\<lambda>k. map_option (Pair k) (m k)) [''cache'', ''db'']),
      promhttp_Handler = (\<lambda>w r rw. ([], Write ''# metrics'' rw)),
      pkg_wrapAPIHandler = (\<lambda>l. wrapAPIHandler bool_codec mock_log),
      pkg_streamWrapAPIHandler = (\<lambda>l h w r rw. ([], rw))\<rparr>"

definition mock_options :: "(nat, probe_value, unit) Option list" where
  "mock_options =
     [Name ''svc'', Version ''1.0'', Param ''env'' ''test'',
      DependencyInfo ''db'' (\<lambda>w. PBool (0 < w))]"

definition chan_options :: "(nat, probe_value, unit) Option list" where
  "chan_options = [Name ''svc'', DependencyInfo ''db'' (\<lambda>w. PChan)]"

definition get_info :: request where
  "get_info = \<lparr>Method = ''GET'', URL = ''/info'', Header = [], ReqBody = []\<rparr>"

section \<open>Properties of \<open>HTTPClient.Send\<close>\<close>

lemmas Send_defs = Send_def http_NewRequest_def handle_response_def getDoer_def
  errors_Wrap_def errors_Wrapf_def Let_def

lemmas mock_defs = mock_lib_def mock_client_def get_x_def

subsection \<open>The paths through \<open>Send\<close>\<close>

text \<open>
  \<open>Send\<close> returns at one of four places before it has a response, or goes on with the
  response.
\<close>

lemma Send_stages:
  "(\<exists>p cause. payload = Some p \<and> json_Marshal L p = Inl cause \<and>
       Send L c meth url payload respObj =
         \<lparr>err = Some (Wrapped cause fmt_marshal []), out = respObj, calls = []\<rparr>) \<or>
   (\<exists>cause. Send L c meth url payload respObj =
         \<lparr>err = Some (Wrapped cause fmt_request [AStr meth, AStr url]), out = respObj,
          calls = []\<rparr>) \<or>
   (\<exists>req cause. getDoer L c req = Inl cause \<and>
       Send L c meth url payload respObj =
         \<lparr>err = Some (Wrapped cause fmt_send []), out = respObj, calls = [Do req]\<rparr>) \<or>
   (\<exists>reqBody req resp. getDoer L c req = Inr resp \<and>
       Send L c meth url payload respObj =
         (handle_response L meth url reqBody resp respObj)
           \<lparr>calls := Do req # calls (handle_response L meth url reqBody resp respObj)
                       @ [BodyClose]\<rparr>)"
proof (cases "case payload of None \<Rightarrow> Inr [] | Some p \<Rightarrow> json_Marshal L p")
  case (Inl cause)
  then show ?thesis
    by (cases payload) (simp_all add: Send_def errors_Wrap_def)
next
  case (Inr reqBody)
  note marshalled = this
  show ?thesis
  proof (cases "http_NewRequest L meth (ServiceAddress c @ url) reqBody")
    case (Inl cause)
    with marshalled show ?thesis
      by (simp add: Send_def errors_Wrapf_def)
  next
    case (Inr req0)
    note built = this
    let ?req = "req0\<lparr>Header := Header req0 @ [(''content-type'', ''application/json'')]\<rparr>"
    show ?thesis
    proof (cases "getDoer L c ?req")
      case (Inl cause)
      with marshalled built
      have "Send L c meth url payload respObj =
              \<lparr>err = Some (Wrapped cause fmt_send []), out = respObj, calls = [Do ?req]\<rparr>"
        by (simp add: Send_def errors_Wrapf_def Let_def)
      with Inl show ?thesis by blast
    next
      case (Inr resp)
      with marshalled built
      have "Send L c meth url payload respObj =
         (handle_response L meth url reqBody resp respObj)
           \<lparr>calls := Do ?req # calls (handle_response L meth url reqBody resp respObj)
                       @ [BodyClose]\<rparr>"
        by (simp add: Send_def Let_def)
      with Inr show ?thesis by blast
    qed
  qed
qed

lemma handle_response_stages:
  "(resp_StatusCode resp = 404 \<and>
      handle_response L meth url reqBody resp respObj =
        \<lparr>err = Some EntityNotFoundErr, out = respObj, calls = []\<rparr>) \<or>
   (\<exists>cause. resp_StatusCode resp \<noteq> 404 \<and> resp_Body resp = Inl cause \<and>
      handle_response L meth url reqBody resp respObj =
        \<lparr>err = Some (Wrapped cause fmt_read [AStr meth, AStr url, ABytes reqBody]),
         out = respObj, calls = [ReadAll]\<rparr>) \<or>
   (\<exists>body cause verr. resp_StatusCode resp \<noteq> 404 \<and> resp_Body resp = Inr body \<and>
      (resp_StatusCode resp < 200 \<or> 299 < resp_StatusCode resp) \<and>
      Unmarshal_APIError L body (zero_APIError L) = (Some cause, verr) \<and>
      handle_response L meth url reqBody resp respObj =
        \<lparr>err = Some (Wrapped cause fmt_unmarshal [AInt (resp_StatusCode resp), ABytes body]),
         out = respObj, calls = [ReadAll, UnmarshalAPIError body]\<rparr>) \<or>
   (\<exists>body verr. resp_StatusCode resp \<noteq> 404 \<and> resp_Body resp = Inr body \<and>
      (resp_StatusCode resp < 200 \<or> 299 < resp_StatusCode resp) \<and>
      Unmarshal_APIError L body (zero_APIError L) = (None, verr) \<and>
      handle_response L meth url reqBody resp respObj =
        \<lparr>err = Some (APIErr (verr\<lparr>StatusCode := resp_StatusCode resp\<rparr>)),
         out = respObj, calls = [ReadAll, UnmarshalAPIError body]\<rparr>) \<or>
   (\<exists>body. 200 \<le> resp_StatusCode resp \<and> resp_StatusCode resp \<le> 299 \<and>
      resp_Body resp = Inr body \<and> respObj = None \<and>
      handle_response L meth url reqBody resp respObj =
        \<lparr>err = None, out = None, calls = [ReadAll]\<rparr>) \<or>
   (\<exists>body dst cause dst'. 200 \<le> resp_StatusCode resp \<and> resp_StatusCode resp \<le> 299 \<and>
      resp_Body resp = Inr body \<and> respObj = Some dst \<and>
      Unmarshal_respObj L body dst = (Some cause, dst') \<and>
      handle_response L meth url reqBody resp respObj =
        \<lparr>err = Some (Wrapped cause fmt_unmarshal [AInt (resp_StatusCode resp), ABytes body]),
         out = Some dst', calls = [ReadAll, UnmarshalRespObj body]\<rparr>) \<or>
   (\<exists>body dst dst'. 200 \<le> resp_StatusCode resp \<and> resp_StatusCode resp \<le> 299 \<and>
      resp_Body resp = Inr body \<and> respObj = Some dst \<and>
      Unmarshal_respObj L body dst = (None, dst') \<and>
      handle_response L meth url reqBody resp respObj =
        \<lparr>err = None, out = Some dst', calls = [ReadAll, UnmarshalRespObj body]\<rparr>)"
proof (cases "resp_StatusCode resp = 404")
  case True
  then show ?thesis by (simp add: handle_response_def)
next
  case False
  note not404 = this
  show ?thesis
  proof (cases "resp_Body resp")
    case (Inl cause)
    with not404 show ?thesis by (simp add: handle_response_def errors_Wrapf_def)
  next
    case (Inr body)
    note read = this
    show ?thesis
    proof (cases "resp_StatusCode resp < 200 \<or> 299 < resp_StatusCode resp")
      case True
      obtain r verr where u: "Unmarshal_APIError L body (zero_APIError L) = (r, verr)"
        by (cases "Unmarshal_APIError L body (zero_APIError L)")
      with not404 read True show ?thesis
        by (cases r) (auto simp: handle_response_def errors_Wrapf_def)
    next
      case False
      show ?thesis
      proof (cases respObj)
        case None
        with not404 read False show ?thesis by (simp add: handle_response_def)
      next
        case (Some dst)
        obtain r dst' where u: "Unmarshal_respObj L body dst = (r, dst')"
          by (cases "Unmarshal_respObj L body dst")
        with not404 read False Some show ?thesis
          by (cases r) (auto simp: handle_response_def errors_Wrapf_def)
      qed
    qed
  qed
qed

text \<open>
  Every call of \<open>Send\<close> takes one of ten paths; each fixes the returned error, the
  destination and the calls made.
\<close>

lemma Send_paths [case_names marshal request transport notfound read apidecode apierror
    nodest decode decoded]:
  fixes L :: "('p, 'r, 'z) lib"
  assumes "\<And>p cause. \<lbrakk>payload = Some p; json_Marshal L p = Inl cause;
       Send L c meth url payload respObj =
         \<lparr>err = Some (Wrapped cause fmt_marshal []), out = respObj, calls = []\<rparr>\<rbrakk> \<Longrightarrow> P"
    and "\<And>cause. \<lbrakk>Send L c meth url payload respObj =
         \<lparr>err = Some (Wrapped cause fmt_request [AStr meth, AStr url]), out = respObj,
          calls = []\<rparr>\<rbrakk> \<Longrightarrow> P"
    and "\<And>req cause. \<lbrakk>getDoer L c req = Inl cause;
       Send L c meth url payload respObj =
         \<lparr>err = Some (Wrapped cause fmt_send []), out = respObj, calls = [Do req]\<rparr>\<rbrakk> \<Longrightarrow> P"
    and "\<And>req resp. \<lbrakk>getDoer L c req = Inr resp; resp_StatusCode resp = 404;
       Send L c meth url payload respObj =
         \<lparr>err = Some EntityNotFoundErr, out = respObj, calls = [Do req, BodyClose]\<rparr>\<rbrakk> \<Longrightarrow> P"
    and "\<And>req resp cause reqBody. \<lbrakk>getDoer L c req = Inr resp; resp_StatusCode resp \<noteq> 404;
       resp_Body resp = Inl cause;
       Send L c meth url payload respObj =
         \<lparr>err = Some (Wrapped cause fmt_read [AStr meth, AStr url, ABytes reqBody]),
          out = respObj, calls = [Do req, ReadAll, BodyClose]\<rparr>\<rbrakk> \<Longrightarrow> P"
    and "\<And>req resp body cause verr. \<lbrakk>getDoer L c req = Inr resp; resp_StatusCode resp \<noteq> 404;
       resp_Body resp = Inr body; resp_StatusCode resp < 200 \<or> 299 < resp_StatusCode resp;
       Unmarshal_APIError L body (zero_APIError L) = (Some cause, verr);
       Send L c meth url payload respObj =
         \<lparr>err = Some (Wrapped cause fmt_unmarshal [AInt (resp_StatusCode resp), ABytes body]),
          out = respObj, calls = [Do req, ReadAll, UnmarshalAPIError body, BodyClose]\<rparr>\<rbrakk> \<Longrightarrow> P"
    and "\<And>req resp body verr. \<lbrakk>getDoer L c req = Inr resp; resp_StatusCode resp \<noteq> 404;
       resp_Body resp = Inr body; resp_StatusCode resp < 200 \<or> 299 < resp_StatusCode resp;
       Unmarshal_APIError L body (zero_APIError L) = (None, verr);
       Send L c meth url payload respObj =
         \<lparr>err = Some (APIErr (verr\<lparr>StatusCode := resp_StatusCode resp\<rparr>)),
          out = respObj, calls = [Do req, ReadAll, UnmarshalAPIError body, BodyClose]\<rparr>\<rbrakk> \<Longrightarrow> P"
    and "\<And>req resp body. \<lbrakk>getDoer L c req = Inr resp;
       200 \<le> resp_StatusCode resp; resp_StatusCode resp \<le> 299;
       resp_Body resp = Inr body; respObj = None;
       Send L c meth url payload respObj =
         \<lparr>err = None, out = None, calls = [Do req, ReadAll, BodyClose]\<rparr>\<rbrakk> \<Longrightarrow> P"
    and "\<And>req resp body dst cause dst'. \<lbrakk>getDoer L c req = Inr resp;
       200 \<le> resp_StatusCode resp; resp_StatusCode resp \<le> 299;
       resp_Body resp = Inr body; respObj = Some dst;
       Unmarshal_respObj L body dst = (Some cause, dst');
       Send L c meth url payload respObj =
         \<lparr>err = Some (Wrapped cause fmt_unmarshal [AInt (resp_StatusCode resp), ABytes body]),
          out = Some dst', calls = [Do req, ReadAll, UnmarshalRespObj body, BodyClose]\<rparr>\<rbrakk> \<Longrightarrow> P"
    and "\<And>req resp body dst dst'. \<lbrakk>getDoer L c req = Inr resp;
       200 \<le> resp_StatusCode resp; resp_StatusCode resp \<le> 299;
       resp_Body resp = Inr body; respObj = Some dst;
       Unmarshal_respObj L body dst = (None, dst');
       Send L c meth url payload respObj =
         \<lparr>err = None, out = Some dst',
          calls = [Do req, ReadAll, UnmarshalRespObj body, BodyClose]\<rparr>\<rbrakk> \<Longrightarrow> P"
  shows P
proof -
  from Send_stages [of payload L c meth url respObj]
  consider
    (a) p cause where "payload = Some p" "json_Marshal L p = Inl cause"
       "Send L c meth url payload respObj =
         \<lparr>err = Some (Wrapped cause fmt_marshal []), out = respObj, calls = []\<rparr>"
  | (b) cause where "Send L c meth url payload respObj =
         \<lparr>err = Some (Wrapped cause fmt_request [AStr meth, AStr url]), out = respObj,
          calls = []\<rparr>"
  | (c) req cause where "getDoer L c req = Inl cause"
       "Send L c meth url payload respObj =
         \<lparr>err = Some (Wrapped cause fmt_send []), out = respObj, calls = [Do req]\<rparr>"
  | (d) reqBody req resp where "getDoer L c req = Inr resp"
       "Send L c meth url payload respObj =
         (handle_response L meth url reqBody resp respObj)
           \<lparr>calls := Do req # calls (handle_response L meth url reqBody resp respObj)
                       @ [BodyClose]\<rparr>"
    by blast
  then show P
  proof cases
    case a
    then show P by (rule assms(1))
  next
    case b
    then show P by (rule assms(2))
  next
    case c
    then show P by (rule assms(3))
  next
    case d
    from handle_response_stages [of resp L meth url reqBody respObj]
    consider
      (d1) "resp_StatusCode resp = 404"
        "handle_response L meth url reqBody resp respObj =
          \<lparr>err = Some EntityNotFoundErr, out = respObj, calls = []\<rparr>"
    | (d2) cause where "resp_StatusCode resp \<noteq> 404" "resp_Body resp = Inl cause"
        "handle_response L meth url reqBody resp respObj =
          \<lparr>err = Some (Wrapped cause fmt_read [AStr meth, AStr url, ABytes reqBody]),
           out = respObj, calls = [ReadAll]\<rparr>"
    | (d3) body cause verr where "resp_StatusCode resp \<noteq> 404" "resp_Body resp = Inr body"
        "resp_StatusCode resp < 200 \<or> 299 < resp_StatusCode resp"
        "Unmarshal_APIError L body (zero_APIError L) = (Some cause, verr)"
        "handle_response L meth url reqBody resp respObj =
          \<lparr>err = Some (Wrapped cause fmt_unmarshal [AInt (resp_StatusCode resp), ABytes body]),
           out = respObj, calls = [ReadAll, UnmarshalAPIError body]\<rparr>"
    | (d4) body verr where "resp_StatusCode resp \<noteq> 404" "resp_Body resp = Inr body"
        "resp_StatusCode resp < 200 \<or> 299 < resp_StatusCode resp"
        "Unmarshal_APIError L body (zero_APIError L) = (None, verr)"
        "handle_response L meth url reqBody resp respObj =
          \<lparr>err = Some (APIErr (verr\<lparr>StatusCode := resp_StatusCode resp\<rparr>)),
           out = respObj, calls = [ReadAll, UnmarshalAPIError body]\<rparr>"
    | (d5) body where "200 \<le> resp_StatusCode resp" "resp_StatusCode resp \<le> 299"
        "resp_Body resp = Inr body" "respObj = None"
        "handle_response L meth url reqBody resp respObj =
          \<lparr>err = None, out = None, calls = [ReadAll]\<rparr>"
    | (d6) body dst cause dst' where "200 \<le> resp_StatusCode resp" "resp_StatusCode resp \<le> 299"
        "resp_Body resp = Inr body" "respObj = Some dst"
        "Unmarshal_respObj L body dst = (Some cause, dst')"
        "handle_response L meth url reqBody resp respObj =
          \<lparr>err = Some (Wrapped cause fmt_unmarshal [AInt (resp_StatusCode resp), ABytes body]),
           out = Some dst', calls = [ReadAll, UnmarshalRespObj body]\<rparr>"
    | (d7) body dst dst' where "200 \<le> resp_StatusCode resp" "resp_StatusCode resp \<le> 299"
        "resp_Body resp = Inr body" "respObj = Some dst"
        "Unmarshal_respObj L body dst = (None, dst')"
        "handle_response L meth url reqBody resp respObj =
          \<lparr>err = None, out = Some dst', calls = [ReadAll, UnmarshalRespObj body]\<rparr>"
      by blast
    then show P
    proof cases
      case d1
      with d show P by (intro assms(4) [of req resp]) simp_all
    next
      case d2
      with d show P by (intro assms(5) [of req resp cause reqBody]) simp_all
    next
      case d3
      with d show P by (intro assms(6) [of req resp body cause verr]) simp_all
    next
      case d4
      with d show P by (intro assms(7) [of req resp body verr]) simp_all
    next
      case d5
      with d show P by (intro assms(8) [of req resp body]) simp_all
    next
      case d6
      with d show P by (intro assms(9) [of req resp body dst cause dst']) simp_all
    next
      case d7
      with d show P by (intro assms(10) [of req resp body dst dst']) simp_all
    qed
  qed
qed

subsection \<open>Requests\<close>

text \<open>
  C10. Every request \<open>Send\<close> hands to the \<open>Doer\<close> carries the header
  \<open>content-type: application/json\<close> and is addressed to the service address followed
  by the path; when the payload is nil its body is empty.
\<close>

theorem Send_content_type:
  "Do req \<in> set (calls (Send L c meth url payload respObj)) \<Longrightarrow>
     (''content-type'', ''application/json'') \<in> set (Header req) \<and>
     URL req = ServiceAddress c @ url \<and>
     (payload = None \<longrightarrow> ReqBody req = [])"
  by (auto simp: Send_defs split: sum.splits option.splits if_splits prod.splits)

theorem Send_content_type_witness:
  "Do get_x \<in> set (calls (Send mock_lib (mock_client 404 []) ''GET'' ''/x'' None (None :: dest option))) \<and>
   (''content-type'', ''application/json'') \<in> set (Header get_x) \<and>
   URL get_x = ServiceAddress (mock_client 404 []) @ ''/x'' \<and>
   ReqBody get_x = []"
  using Send_content_type [of get_x mock_lib "mock_client 404 []" "''GET''" "''/x''" None None]
  by (simp add: Send_defs mock_defs)

subsection \<open>Responses\<close>

text \<open>
  C2, as stated, fails where it promises an outcome for every response: a 200 response
  whose body is not JSON for the destination makes \<open>Send\<close> return an error, and a 502
  response whose body is not JSON gives the wrapped decode failure, not an
  \<open>APIError\<close>.
\<close>

theorem Send_response_mapping_counterexample:
  "err (Send mock_lib (mock_client 200 doc_html) ''GET'' ''/x'' None (Some \<lparr>A = 0, B = 0\<rparr>))
     \<noteq> None \<and>
   err (Send mock_lib (mock_client 502 doc_html) ''GET'' ''/x'' None (Some \<lparr>A = 0, B = 0\<rparr>))
     = Some (Wrapped (GoError ''invalid character'') fmt_unmarshal [AInt 502, ABytes doc_html])"
  by (simp add: Send_defs mock_defs doc_html_def doc_a_1_def doc_a_1_b_x_def doc_message_x_def)

text \<open>
  C2, amended. When the payload is marshalled (or is nil, and then nothing is
  marshalled and the body is empty), the request is built and the \<open>Doer\<close> answers with
  a response, the request sent carries the marshalled payload as its body, and: status
  404 gives the distinguished \<open>EntityNotFoundErr\<close>; for any other status a body that
  cannot be read gives the wrapped read failure; any other status outside 200 to 299
  gives the \<open>APIError\<close> decoded from the body with its \<open>StatusCode\<close> set to the
  status when the body decodes, and the wrapped decode failure when it does not; a
  status from 200 to 299 gives nil and leaves a nil \<open>respObj\<close> alone without decoding,
  gives nil with the body decoded into \<open>respObj\<close> when the body decodes, and the
  wrapped decode failure when it does not.
\<close>

theorem Send_response_mapping:
  assumes "(case payload of None \<Rightarrow> Inr [] | Some p \<Rightarrow> json_Marshal L p) = Inr reqBody"
      and "http_NewRequest L meth (ServiceAddress c @ url) reqBody = Inr req0"
      and "req = req0\<lparr>Header := Header req0 @ [(''content-type'', ''application/json'')]\<rparr>"
      and "getDoer L c req = Inr resp"
      and "code = resp_StatusCode resp"
      and "R = Send L c meth url payload respObj"
  shows "hd (calls R) = Do req \<and> ReqBody req = reqBody \<and>
     (code = 404 \<longrightarrow> err R = Some EntityNotFoundErr) \<and>
     (code \<noteq> 404 \<longrightarrow>
        (\<forall>cause. resp_Body resp = Inl cause \<longrightarrow>
           err R = Some (Wrapped cause fmt_read [AStr meth, AStr url, ABytes reqBody]))) \<and>
     (code \<noteq> 404 \<and> (code < 200 \<or> 299 < code) \<longrightarrow>
        (\<forall>body verr. resp_Body resp = Inr body \<longrightarrow>
           (Unmarshal_APIError L body (zero_APIError L) = (None, verr) \<longrightarrow>
              err R = Some (APIErr (verr\<lparr>StatusCode := code\<rparr>))) \<and>
           (\<forall>cause. Unmarshal_APIError L body (zero_APIError L) = (Some cause, verr) \<longrightarrow>
              err R = Some (Wrapped cause fmt_unmarshal [AInt code, ABytes body])))) \<and>
     (200 \<le> code \<and> code \<le> 299 \<longrightarrow>
        (\<forall>body. resp_Body resp = Inr body \<longrightarrow>
           (respObj = None \<longrightarrow>
              err R = None \<and> out R = None \<and> calls R = [Do req, ReadAll, BodyClose]) \<and>
           (\<forall>dst dst'. respObj = Some dst \<longrightarrow>
              (Unmarshal_respObj L body dst = (None, dst') \<longrightarrow>
                 err R = None \<and> out R = Some dst' \<and>
                 calls R = [Do req, ReadAll, UnmarshalRespObj body, BodyClose]) \<and>
              (\<forall>cause. Unmarshal_respObj L body dst = (Some cause, dst') \<longrightarrow>
                 err R = Some (Wrapped cause fmt_unmarshal [AInt code, ABytes body])))))"
proof -
  from assms have R: "R = (handle_response L meth url reqBody resp respObj)
      \<lparr>calls := Do req # calls (handle_response L meth url reqBody resp respObj) @ [BodyClose]\<rparr>"
    by (simp add: Send_def Let_def)
  from assms(2,3) have body: "ReqBody req = reqBody"
    by (auto simp: http_NewRequest_def split: option.splits)
  have first: "hd (calls R) = Do req"
    by (simp add: R)
  have nf: "code = 404 \<longrightarrow> err R = Some EntityNotFoundErr"
    by (simp add: R handle_response_def assms(5))
  have rd: "code \<noteq> 404 \<longrightarrow>
        (\<forall>cause. resp_Body resp = Inl cause \<longrightarrow>
           err R = Some (Wrapped cause fmt_read [AStr meth, AStr url, ABytes reqBody]))"
    by (simp add: R handle_response_def assms(5) errors_Wrapf_def)
  have api: "code \<noteq> 404 \<and> (code < 200 \<or> 299 < code) \<longrightarrow>
        (\<forall>body verr. resp_Body resp = Inr body \<longrightarrow>
           (Unmarshal_APIError L body (zero_APIError L) = (None, verr) \<longrightarrow>
              err R = Some (APIErr (verr\<lparr>StatusCode := code\<rparr>))) \<and>
           (\<forall>cause. Unmarshal_APIError L body (zero_APIError L) = (Some cause, verr) \<longrightarrow>
              err R = Some (Wrapped cause fmt_unmarshal [AInt code, ABytes body])))"
    by (auto simp: R handle_response_def assms(5) errors_Wrapf_def)
  have ok: "200 \<le> code \<and> code \<le> 299 \<longrightarrow>
        (\<forall>body. resp_Body resp = Inr body \<longrightarrow>
           (respObj = None \<longrightarrow>
              err R = None \<and> out R = None \<and> calls R = [Do req, ReadAll, BodyClose]) \<and>
           (\<forall>dst dst'. respObj = Some dst \<longrightarrow>
              (Unmarshal_respObj L body dst = (None, dst') \<longrightarrow>
                 err R = None \<and> out R = Some dst' \<and>
                 calls R = [Do req, ReadAll, UnmarshalRespObj body, BodyClose]) \<and>
              (\<forall>cause. Unmarshal_respObj L body dst = (Some cause, dst') \<longrightarrow>
                 err R = Some (Wrapped cause fmt_unmarshal [AInt code, ABytes body]))))"
    by (auto simp: R handle_response_def assms(5) errors_Wrapf_def)
  show ?thesis
    by (intro conjI) (rule first, rule body, rule nf, rule rd, rule api, rule ok)
qed

theorem Send_response_mapping_witness:
  "err (Send mock_lib (mock_client 404 []) ''GET'' ''/x'' None (Some \<lparr>A = 0, B = 0\<rparr>))
     = Some EntityNotFoundErr \<and>
   err (Send mock_lib (mock_client 503 doc_message_x) ''GET'' ''/x'' None (Some \<lparr>A = 0, B = 0\<rparr>))
     = Some (APIErr \<lparr>StatusCode = 503, Message = ''x''\<rparr>) \<and>
   err (Send mock_lib (mock_client 200 doc_a_1) ''GET'' ''/x'' None (Some \<lparr>A = 0, B = 0\<rparr>))
     = None \<and>
   out (Send mock_lib (mock_client 200 doc_a_1) ''GET'' ''/x'' None (Some \<lparr>A = 0, B = 0\<rparr>))
     = Some \<lparr>A = 1, B = 0\<rparr>"
  using
    Send_response_mapping [where payload = None and L = mock_lib and reqBody = "[]"
      and meth = "''GET''" and c = "mock_client 404 []" and url = "''/x''"
      and ?req0.0 = "get_x\<lparr>Header := []\<rparr>" and req = get_x
      and resp = "\<lparr>resp_StatusCode = 404, resp_Body = Inr []\<rparr>" and code = 404
      and respObj = "Some \<lparr>A = 0, B = 0\<rparr>", OF _ _ _ _ _ refl]
    Send_response_mapping [where payload = None and L = mock_lib and reqBody = "[]"
      and meth = "''GET''" and c = "mock_client 503 doc_message_x" and url = "''/x''"
      and ?req0.0 = "get_x\<lparr>Header := []\<rparr>" and req = get_x
      and resp = "\<lparr>resp_StatusCode = 503, resp_Body = Inr doc_message_x\<rparr>" and code = 503
      and respObj = "Some \<lparr>A = 0, B = 0\<rparr>", OF _ _ _ _ _ refl]
    Send_response_mapping [where payload = None and L = mock_lib and reqBody = "[]"
      and meth = "''GET''" and c = "mock_client 200 doc_a_1" and url = "''/x''"
      and ?req0.0 = "get_x\<lparr>Header := []\<rparr>" and req = get_x
      and resp = "\<lparr>resp_StatusCode = 200, resp_Body = Inr doc_a_1\<rparr>" and code = 200
      and respObj = "Some \<lparr>A = 0, B = 0\<rparr>", OF _ _ _ _ _ refl]
  by (simp add: mock_defs http_NewRequest_def getDoer_def)

subsection \<open>Errors\<close>

text \<open>
  C5, as the spec states it, fails: the error of a 404 response is returned as it is,
  not wrapped at all, and the wrap of a transport failure is given neither the method
  nor the path.
\<close>

theorem Send_wraps_every_error_counterexample:
  "err (Send mock_lib (mock_client 404 []) ''GET'' ''/x'' None (None :: dest option))
     = Some EntityNotFoundErr \<and>
   \<not> call_site_context ''GET'' ''/x'' (EntityNotFoundErr :: unit APIErrorBody_ext send_error) \<and>
   err (Send mock_lib failing_client ''GET'' ''/x'' None (None :: dest option))
     = Some (Wrapped (GoError ''connection refused'') fmt_send []) \<and>
   \<not> call_site_context ''GET'' ''/x''
        (Wrapped (GoError ''connection refused'') fmt_send [] :: unit APIErrorBody_ext send_error)"
  by (simp add: Send_defs mock_defs failing_client_def call_site_context_def)

text \<open>
  Once the request is built, \<open>Send\<close> returns the wrapped transport failure or goes on
  with the response; before that it returns the wrapped marshal or request-construction
  failure.
\<close>

lemma Send_answered:
  assumes "request_sent L c meth url payload reqBody req"
      and "getDoer L c req = Inr resp"
  shows "Send L c meth url payload respObj =
     (handle_response L meth url reqBody resp respObj)
       \<lparr>calls := Do req # calls (handle_response L meth url reqBody resp respObj) @ [BodyClose]\<rparr>"
  using assms by (auto simp: request_sent_def Send_def Let_def)

lemma Send_unanswered:
  assumes "request_sent L c meth url payload reqBody req"
      and "getDoer L c req = Inl cause"
  shows "Send L c meth url payload respObj =
     \<lparr>err = Some (Wrapped cause fmt_send []), out = respObj, calls = [Do req]\<rparr>"
  using assms by (auto simp: request_sent_def Send_def Let_def errors_Wrapf_def)

lemma Send_progress:
  "(\<exists>p cause. payload = Some p \<and> json_Marshal L p = Inl cause \<and>
       Send L c meth url payload respObj =
         \<lparr>err = Some (Wrapped cause fmt_marshal []), out = respObj, calls = []\<rparr>) \<or>
   (\<exists>reqBody cause.
       (case payload of None \<Rightarrow> Inr [] | Some p \<Rightarrow> json_Marshal L p) = Inr reqBody \<and>
       http_NewRequest L meth (ServiceAddress c @ url) reqBody = Inl cause \<and>
       Send L c meth url payload respObj =
         \<lparr>err = Some (Wrapped cause fmt_request [AStr meth, AStr url]), out = respObj,
          calls = []\<rparr>) \<or>
   (\<exists>reqBody req. request_sent L c meth url payload reqBody req)"
proof (cases "case payload of None \<Rightarrow> Inr [] | Some p \<Rightarrow> json_Marshal L p")
  case (Inl cause)
  then show ?thesis
    by (cases payload) (simp_all add: Send_def errors_Wrap_def)
next
  case (Inr reqBody)
  note marshalled = this
  show ?thesis
  proof (cases "http_NewRequest L meth (ServiceAddress c @ url) reqBody")
    case (Inl cause)
    with marshalled have "Send L c meth url payload respObj =
         \<lparr>err = Some (Wrapped cause fmt_request [AStr meth, AStr url]), out = respObj,
          calls = []\<rparr>"
      by (simp add: Send_def errors_Wrapf_def)
    with marshalled Inl show ?thesis by blast
  next
    case (Inr req0)
    with marshalled have "request_sent L c meth url payload reqBody
        (req0\<lparr>Header := Header req0 @ [(''content-type'', ''application/json'')]\<rparr>)"
      by (simp add: request_sent_def)
    then show ?thesis by blast
  qed
qed

lemma Send_error_origin:
  assumes "err (Send L c meth url payload respObj) = Some e"
  shows "(\<exists>p cause. payload = Some p \<and> json_Marshal L p = Inl cause \<and>
        e = Wrapped cause fmt_marshal []) \<or>
     (\<exists>reqBody cause.
        (case payload of None \<Rightarrow> Inr [] | Some p \<Rightarrow> json_Marshal L p) = Inr reqBody \<and>
        http_NewRequest L meth (ServiceAddress c @ url) reqBody = Inl cause \<and>
        e = Wrapped cause fmt_request [AStr meth, AStr url]) \<or>
     (\<exists>reqBody req cause. request_sent L c meth url payload reqBody req \<and>
        getDoer L c req = Inl cause \<and> e = Wrapped cause fmt_send []) \<or>
     (\<exists>reqBody req resp. request_sent L c meth url payload reqBody req \<and>
        getDoer L c req = Inr resp \<and> resp_StatusCode resp = 404 \<and> e = EntityNotFoundErr) \<or>
     (\<exists>reqBody req resp cause. request_sent L c meth url payload reqBody req \<and>
        getDoer L c req = Inr resp \<and> resp_StatusCode resp \<noteq> 404 \<and>
        resp_Body resp = Inl cause \<and>
        e = Wrapped cause fmt_read [AStr meth, AStr url, ABytes reqBody]) \<or>
     (\<exists>reqBody req resp body verr. request_sent L c meth url payload reqBody req \<and>
        getDoer L c req = Inr resp \<and> resp_StatusCode resp \<noteq> 404 \<and>
        (resp_StatusCode resp < 200 \<or> 299 < resp_StatusCode resp) \<and>
        resp_Body resp = Inr body \<and>
        Unmarshal_APIError L body (zero_APIError L) = (None, verr) \<and>
        e = APIErr (verr\<lparr>StatusCode := resp_StatusCode resp\<rparr>)) \<or>
     (\<exists>reqBody req resp body cause verr. request_sent L c meth url payload reqBody req \<and>
        getDoer L c req = Inr resp \<and> resp_StatusCode resp \<noteq> 404 \<and>
        (resp_StatusCode resp < 200 \<or> 299 < resp_StatusCode resp) \<and>
        resp_Body resp = Inr body \<and>
        Unmarshal_APIError L body (zero_APIError L) = (Some cause, verr) \<and>
        e = Wrapped cause fmt_unmarshal [AInt (resp_StatusCode resp), ABytes body]) \<or>
     (\<exists>reqBody req resp body dst cause dst'. request_sent L c meth url payload reqBody req \<and>
        getDoer L c req = Inr resp \<and>
        200 \<le> resp_StatusCode resp \<and> resp_StatusCode resp \<le> 299 \<and>
        resp_Body resp = Inr body \<and> respObj = Some dst \<and>
        Unmarshal_respObj L body dst = (Some cause, dst') \<and>
        e = Wrapped cause fmt_unmarshal [AInt (resp_StatusCode resp), ABytes body])"
proof -
  let ?R = "Send L c meth url payload respObj"
  from Send_progress [of payload L c meth url respObj]
  consider
    (a) p cause where "payload = Some p" "json_Marshal L p = Inl cause"
       "?R = \<lparr>err = Some (Wrapped cause fmt_marshal []), out = respObj, calls = []\<rparr>"
  | (b) reqBody cause where
       "(case payload of None \<Rightarrow> Inr [] | Some p \<Rightarrow> json_Marshal L p) = Inr reqBody"
       "http_NewRequest L meth (ServiceAddress c @ url) reqBody = Inl cause"
       "?R = \<lparr>err = Some (Wrapped cause fmt_request [AStr meth, AStr url]), out = respObj,
          calls = []\<rparr>"
  | (c) reqBody req where "request_sent L c meth url payload reqBody req"
    by blast
  then show ?thesis
  proof cases
    case a
    with assms have "e = Wrapped cause fmt_marshal []" by simp
    with a(1,2) show ?thesis by fastforce
  next
    case b
    with assms have "e = Wrapped cause fmt_request [AStr meth, AStr url]" by simp
    with b(1,2) show ?thesis by fastforce
  next
    case c
    show ?thesis
    proof (cases "getDoer L c req")
      case (Inl cause)
      from Send_unanswered [OF c Inl, of respObj] assms
      have "e = Wrapped cause fmt_send []" by simp
      with c Inl show ?thesis by fastforce
    next
      case (Inr resp)
      note answered = Send_answered [OF c Inr, of respObj]
      from handle_response_stages [of resp L meth url reqBody respObj]
      consider
        (d1) "resp_StatusCode resp = 404"
          "handle_response L meth url reqBody resp respObj =
            \<lparr>err = Some EntityNotFoundErr, out = respObj, calls = []\<rparr>"
      | (d2) cause where "resp_StatusCode resp \<noteq> 404" "resp_Body resp = Inl cause"
          "handle_response L meth url reqBody resp respObj =
            \<lparr>err = Some (Wrapped cause fmt_read [AStr meth, AStr url, ABytes reqBody]),
             out = respObj, calls = [ReadAll]\<rparr>"
      | (d3) body cause verr where "resp_StatusCode resp \<noteq> 404" "resp_Body resp = Inr body"
          "resp_StatusCode resp < 200 \<or> 299 < resp_StatusCode resp"
          "Unmarshal_APIError L body (zero_APIError L) = (Some cause, verr)"
          "handle_response L meth url reqBody resp respObj =
            \<lparr>err = Some (Wrapped cause fmt_unmarshal [AInt (resp_StatusCode resp), ABytes body]),
             out = respObj, calls = [ReadAll, UnmarshalAPIError body]\<rparr>"
      | (d4) body verr where "resp_StatusCode resp \<noteq> 404" "resp_Body resp = Inr body"
          "resp_StatusCode resp < 200 \<or> 299 < resp_StatusCode resp"
          "Unmarshal_APIError L body (zero_APIError L) = (None, verr)"
          "handle_response L meth url reqBody resp respObj =
            \<lparr>err = Some (APIErr (verr\<lparr>StatusCode := resp_StatusCode resp\<rparr>)),
             out = respObj, calls = [ReadAll, UnmarshalAPIError body]\<rparr>"
      | (d5) "handle_response L meth url reqBody resp respObj =
            \<lparr>err = None, out = None, calls = [ReadAll]\<rparr>"
      | (d6) body dst cause dst' where "200 \<le> resp_StatusCode resp" "resp_StatusCode resp \<le> 299"
          "resp_Body resp = Inr body" "respObj = Some dst"
          "Unmarshal_respObj L body dst = (Some cause, dst')"
          "handle_response L meth url reqBody resp respObj =
            \<lparr>err = Some (Wrapped cause fmt_unmarshal [AInt (resp_StatusCode resp), ABytes body]),
             out = Some dst', calls = [ReadAll, UnmarshalRespObj body]\<rparr>"
      | (d7) body dst' where "handle_response L meth url reqBody resp respObj =
            \<lparr>err = None, out = Some dst', calls = [ReadAll, UnmarshalRespObj body]\<rparr>"
        by blast
      then show ?thesis
      proof cases
        case d1
        with answered assms have "e = EntityNotFoundErr" by simp
        with c Inr d1(1) show ?thesis by fastforce
      next
        case d2
        with answered assms
        have "e = Wrapped cause fmt_read [AStr meth, AStr url, ABytes reqBody]" by simp
        with c Inr d2(1,2) show ?thesis by fastforce
      next
        case d3
        with answered assms
        have "e = Wrapped cause fmt_unmarshal [AInt (resp_StatusCode resp), ABytes body]" by simp
        with c Inr d3(1,2,3,4) show ?thesis by fastforce
      next
        case d4
        with answered assms
        have "e = APIErr (verr\<lparr>StatusCode := resp_StatusCode resp\<rparr>)" by simp
        with c Inr d4(1,2,3,4) show ?thesis by fastforce
      next
        case d5
        with answered assms show ?thesis by simp
      next
        case d6
        with answered assms
        have "e = Wrapped cause fmt_unmarshal [AInt (resp_StatusCode resp), ABytes body]" by simp
        with c Inr d6(1,2,3,4,5) show ?thesis by fastforce
      next
        case d7
        with answered assms show ?thesis by simp
      qed
    qed
  qed
qed

lemma Send_returns_marshal:
  assumes "(\<exists>p cause. payload = Some p \<and> json_Marshal L p = Inl cause \<and>
        e = Wrapped cause fmt_marshal [])"
  shows "err (Send L c meth url payload respObj) = Some e"
  using assms by (auto simp: Send_def errors_Wrap_def)

lemma Send_returns_request:
  assumes "(\<exists>reqBody cause.
        (case payload of None \<Rightarrow> Inr [] | Some p \<Rightarrow> json_Marshal L p) = Inr reqBody \<and>
        http_NewRequest L meth (ServiceAddress c @ url) reqBody = Inl cause \<and>
        e = Wrapped cause fmt_request [AStr meth, AStr url])"
  shows "err (Send L c meth url payload respObj) = Some e"
  using assms by (auto simp: Send_def errors_Wrapf_def)

lemma Send_returns_transport:
  assumes "(\<exists>reqBody req cause. request_sent L c meth url payload reqBody req \<and>
        getDoer L c req = Inl cause \<and> e = Wrapped cause fmt_send [])"
  shows "err (Send L c meth url payload respObj) = Some e"
  using assms by (auto simp: Send_unanswered)

lemma Send_returns_notfound:
  assumes "(\<exists>reqBody req resp. request_sent L c meth url payload reqBody req \<and>
        getDoer L c req = Inr resp \<and> resp_StatusCode resp = 404 \<and> e = EntityNotFoundErr)"
  shows "err (Send L c meth url payload respObj) = Some e"
  using assms by (auto simp: Send_answered handle_response_def errors_Wrapf_def)

lemma Send_returns_read:
  assumes "(\<exists>reqBody req resp cause. request_sent L c meth url payload reqBody req \<and>
        getDoer L c req = Inr resp \<and> resp_StatusCode resp \<noteq> 404 \<and>
        resp_Body resp = Inl cause \<and>
        e = Wrapped cause fmt_read [AStr meth, AStr url, ABytes reqBody])"
  shows "err (Send L c meth url payload respObj) = Some e"
  using assms by (auto simp: Send_answered handle_response_def errors_Wrapf_def)

lemma Send_returns_apierror:
  assumes "(\<exists>reqBody req resp body verr. request_sent L c meth url payload reqBody req \<and>
        getDoer L c req = Inr resp \<and> resp_StatusCode resp \<noteq> 404 \<and>
        (resp_StatusCode resp < 200 \<or> 299 < resp_StatusCode resp) \<and>
        resp_Body resp = Inr body \<and>
        Unmarshal_APIError L body (zero_APIError L) = (None, verr) \<and>
        e = APIErr (verr\<lparr>StatusCode := resp_StatusCode resp\<rparr>))"
  shows "err (Send L c meth url payload respObj) = Some e"
  using assms by (auto simp: Send_answered handle_response_def errors_Wrapf_def)

lemma Send_returns_apidecode:
  assumes "(\<exists>reqBody req resp body cause verr. request_sent L c meth url payload reqBody req \<and>
        getDoer L c req = Inr resp \<and> resp_StatusCode resp \<noteq> 404 \<and>
        (resp_StatusCode resp < 200 \<or> 299 < resp_StatusCode resp) \<and>
        resp_Body resp = Inr body \<and>
        Unmarshal_APIError L body (zero_APIError L) = (Some cause, verr) \<and>
        e = Wrapped cause fmt_unmarshal [AInt (resp_StatusCode resp), ABytes body])"
  shows "err (Send L c meth url payload respObj) = Some e"
  using assms by (auto simp: Send_answered handle_response_def errors_Wrapf_def)

lemma Send_returns_decode:
  assumes "(\<exists>reqBody req resp body dst cause dst'. request_sent L c meth url payload reqBody req \<and>
        getDoer L c req = Inr resp \<and>
        200 \<le> resp_StatusCode resp \<and> resp_StatusCode resp \<le> 299 \<and>
        resp_Body resp = Inr body \<and> respObj = Some dst \<and>
        Unmarshal_respObj L body dst = (Some cause, dst') \<and>
        e = Wrapped cause fmt_unmarshal [AInt (resp_StatusCode resp), ABytes body])"
  shows "err (Send L c meth url payload respObj) = Some e"
  using assms by (auto simp: Send_answered handle_response_def errors_Wrapf_def)

lemma Send_error_context:
  assumes "err (Send L c meth url payload respObj) = Some e"
  shows "call_site_context meth url e \<longleftrightarrow>
            (\<exists>cause. e = Wrapped cause fmt_request [AStr meth, AStr url]) \<or>
            (\<exists>cause body. e = Wrapped cause fmt_read [AStr meth, AStr url, ABytes body])"
proof (cases rule: Send_paths [of payload L c meth url respObj])
  case (marshal p cause)
  with assms show ?thesis by (auto simp: call_site_context_def)
next
  case (request cause)
  with assms show ?thesis by (auto simp: call_site_context_def)
next
  case (transport req cause)
  with assms show ?thesis by (auto simp: call_site_context_def)
next
  case (notfound req resp)
  with assms show ?thesis by (auto simp: call_site_context_def)
next
  case (read req resp cause reqBody)
  with assms show ?thesis by (auto simp: call_site_context_def)
next
  case (apidecode req resp body cause verr)
  with assms show ?thesis by (auto simp: call_site_context_def)
next
  case (apierror req resp body verr)
  with assms show ?thesis by (auto simp: call_site_context_def)
next
  case (nodest req resp body)
  with assms show ?thesis by (auto simp: call_site_context_def)
next
  case (decode req resp body dst cause dst')
  with assms show ?thesis by (auto simp: call_site_context_def)
next
  case (decoded req resp body dst dst')
  with assms show ?thesis by (auto simp: call_site_context_def)
qed

lemma Send_once:
  "length (filter is_Do (calls (Send L c meth url payload respObj))) \<le> 1"
  by (cases rule: Send_paths [of payload L c meth url respObj]) simp_all

lemma handle_response_no_Do:
  "Do req \<notin> set (calls (handle_response L meth url reqBody resp respObj))"
  by (simp add: handle_response_def split: sum.splits option.splits prod.splits)

lemma Send_calls_request:
  assumes "Do req \<in> set (calls (Send L c meth url payload respObj))"
  shows "\<exists>reqBody. request_sent L c meth url payload reqBody req"
proof -
  from Send_progress [of payload L c meth url respObj]
  consider
    (a) "calls (Send L c meth url payload respObj) = []"
  | (c) reqBody req' where "request_sent L c meth url payload reqBody req'"
    by fastforce
  then show ?thesis
  proof cases
    case a
    with assms show ?thesis by simp
  next
    case c
    have "req = req'"
    proof (cases "getDoer L c req'")
      case (Inl cause)
      from Send_unanswered [OF c Inl, of respObj] assms show ?thesis by simp
    next
      case (Inr resp)
      from Send_answered [OF c Inr, of respObj] assms
        handle_response_no_Do [of req L meth url reqBody resp respObj]
      show ?thesis by simp
    qed
    with c show ?thesis by blast
  qed
qed

text \<open>
  C5, amended. \<open>Send\<close> returns an error exactly in these eight cases, and then this
  error: the payload does not marshal: the marshal error wrapped with a fixed message;
  the request is not built: the error of \<open>http.NewRequest\<close> wrapped with the method
  and the path; the \<open>Doer\<close> fails on the request sent: its error wrapped with a fixed
  message; the response has status 404: the bare \<open>EntityNotFoundErr\<close>; the body of
  another response is not read: the read error wrapped with the method, the path and
  the body of the request sent; a response outside 200 to 299 decodes: the bare
  \<open>APIError\<close> decoded from its body, carrying its status code; it does not decode: the
  decoder's error wrapped with the status code and the response body; a response from
  200 to 299 does not decode into a destination that is not nil: the decoder's error
  wrapped with the status code and the response body. Of these, \<open>Send\<close> gives the
  method and the path only to the wraps of the request-construction and the body-read
  failure. \<open>Send\<close> hands at most one request to the \<open>Doer\<close>, the request built from
  its arguments: it never retries.
\<close>

theorem Send_error_shapes:
  "(err (Send L c meth url payload respObj) = Some e \<longleftrightarrow>
     (\<exists>p cause. payload = Some p \<and> json_Marshal L p = Inl cause \<and>
        e = Wrapped cause fmt_marshal []) \<or>
     (\<exists>reqBody cause.
        (case payload of None \<Rightarrow> Inr [] | Some p \<Rightarrow> json_Marshal L p) = Inr reqBody \<and>
        http_NewRequest L meth (ServiceAddress c @ url) reqBody = Inl cause \<and>
        e = Wrapped cause fmt_request [AStr meth, AStr url]) \<or>
     (\<exists>reqBody req cause. request_sent L c meth url payload reqBody req \<and>
        getDoer L c req = Inl cause \<and> e = Wrapped cause fmt_send []) \<or>
     (\<exists>reqBody req resp. request_sent L c meth url payload reqBody req \<and>
        getDoer L c req = Inr resp \<and> resp_StatusCode resp = 404 \<and> e = EntityNotFoundErr) \<or>
     (\<exists>reqBody req resp cause. request_sent L c meth url payload reqBody req \<and>
        getDoer L c req = Inr resp \<and> resp_StatusCode resp \<noteq> 404 \<and>
        resp_Body resp = Inl cause \<and>
        e = Wrapped cause fmt_read [AStr meth, AStr url, ABytes reqBody]) \<or>
     (\<exists>reqBody req resp body verr. request_sent L c meth url payload reqBody req \<and>
        getDoer L c req = Inr resp \<and> resp_StatusCode resp \<noteq> 404 \<and>
        (resp_StatusCode resp < 200 \<or> 299 < resp_StatusCode resp) \<and>
        resp_Body resp = Inr body \<and>
        Unmarshal_APIError L body (zero_APIError L) = (None, verr) \<and>
        e = APIErr (verr\<lparr>StatusCode := resp_StatusCode resp\<rparr>)) \<or>
     (\<exists>reqBody req resp body cause verr. request_sent L c meth url payload reqBody req \<and>
        getDoer L c req = Inr resp \<and> resp_StatusCode resp \<noteq> 404 \<and>
        (resp_StatusCode resp < 200 \<or> 299 < resp_StatusCode resp) \<and>
        resp_Body resp = Inr body \<and>
        Unmarshal_APIError L body (zero_APIError L) = (Some cause, verr) \<and>
        e = Wrapped cause fmt_unmarshal [AInt (resp_StatusCode resp), ABytes body]) \<or>
     (\<exists>reqBody req resp body dst cause dst'. request_sent L c meth url payload reqBody req \<and>
        getDoer L c req = Inr resp \<and>
        200 \<le> resp_StatusCode resp \<and> resp_StatusCode resp \<le> 299 \<and>
        resp_Body resp = Inr body \<and> respObj = Some dst \<and>
        Unmarshal_respObj L body dst = (Some cause, dst') \<and>
        e = Wrapped cause fmt_unmarshal [AInt (resp_StatusCode resp), ABytes body])) \<and>
   (err (Send L c meth url payload respObj) = Some e \<longrightarrow>
     (call_site_context meth url e \<longleftrightarrow>
        (\<exists>cause. e = Wrapped cause fmt_request [AStr meth, AStr url]) \<or>
        (\<exists>cause body. e = Wrapped cause fmt_read [AStr meth, AStr url, ABytes body]))) \<and>
   length (filter is_Do (calls (Send L c meth url payload respObj))) \<le> 1 \<and>
   (\<forall>req. Do req \<in> set (calls (Send L c meth url payload respObj)) \<longrightarrow>
      (\<exists>reqBody. request_sent L c meth url payload reqBody req))"
proof -
  have origin: "err (Send L c meth url payload respObj) = Some e \<longleftrightarrow>
     (\<exists>p cause. payload = Some p \<and> json_Marshal L p = Inl cause \<and>
        e = Wrapped cause fmt_marshal []) \<or>
     (\<exists>reqBody cause.
        (case payload of None \<Rightarrow> Inr [] | Some p \<Rightarrow> json_Marshal L p) = Inr reqBody \<and>
        http_NewRequest L meth (ServiceAddress c @ url) reqBody = Inl cause \<and>
        e = Wrapped cause fmt_request [AStr meth, AStr url]) \<or>
     (\<exists>reqBody req cause. request_sent L c meth url payload reqBody req \<and>
        getDoer L c req = Inl cause \<and> e = Wrapped cause fmt_send []) \<or>
     (\<exists>reqBody req resp. request_sent L c meth url payload reqBody req \<and>
        getDoer L c req = Inr resp \<and> resp_StatusCode resp = 404 \<and> e = EntityNotFoundErr) \<or>
     (\<exists>reqBody req resp cause. request_sent L c meth url payload reqBody req \<and>
        getDoer L c req = Inr resp \<and> resp_StatusCode resp \<noteq> 404 \<and>
        resp_Body resp = Inl cause \<and>
        e = Wrapped cause fmt_read [AStr meth, AStr url, ABytes reqBody]) \<or>
     (\<exists>reqBody req resp body verr. request_sent L c meth url payload reqBody req \<and>
        getDoer L c req = Inr resp \<and> resp_StatusCode resp \<noteq> 404 \<and>
        (resp_StatusCode resp < 200 \<or> 299 < resp_StatusCode resp) \<and>
        resp_Body resp = Inr body \<and>
        Unmarshal_APIError L body (zero_APIError L) = (None, verr) \<and>
        e = APIErr (verr\<lparr>StatusCode := resp_StatusCode resp\<rparr>)) \<or>
     (\<exists>reqBody req resp body cause verr. request_sent L c meth url payload reqBody req \<and>
        getDoer L c req = Inr resp \<and> resp_StatusCode resp \<noteq> 404 \<and>
        (resp_StatusCode resp < 200 \<or> 299 < resp_StatusCode resp) \<and>
        resp_Body resp = Inr body \<and>
        Unmarshal_APIError L body (zero_APIError L) = (Some cause, verr) \<and>
        e = Wrapped cause fmt_unmarshal [AInt (resp_StatusCode resp), ABytes body]) \<or>
     (\<exists>reqBody req resp body dst cause dst'. request_sent L c meth url payload reqBody req \<and>
        getDoer L c req = Inr resp \<and>
        200 \<le> resp_StatusCode resp \<and> resp_StatusCode resp \<le> 299 \<and>
        resp_Body resp = Inr body \<and> respObj = Some dst \<and>
        Unmarshal_respObj L body dst = (Some cause, dst') \<and>
        e = Wrapped cause fmt_unmarshal [AInt (resp_StatusCode resp), ABytes body])"
  proof
    assume "err (Send L c meth url payload respObj) = Some e"
    then show "(\<exists>p cause. payload = Some p \<and> json_Marshal L p = Inl cause \<and>
        e = Wrapped cause fmt_marshal []) \<or>
     (\<exists>reqBody cause.
        (case payload of None \<Rightarrow> Inr [] | Some p \<Rightarrow> json_Marshal L p) = Inr reqBody \<and>
        http_NewRequest L meth (ServiceAddress c @ url) reqBody = Inl cause \<and>
        e = Wrapped cause fmt_request [AStr meth, AStr url]) \<or>
     (\<exists>reqBody req cause. request_sent L c meth url payload reqBody req \<and>
        getDoer L c req = Inl cause \<and> e = Wrapped cause fmt_send []) \<or>
     (\<exists>reqBody req resp. request_sent L c meth url payload reqBody req \<and>
        getDoer L c req = Inr resp \<and> resp_StatusCode resp = 404 \<and> e = EntityNotFoundErr) \<or>
     (\<exists>reqBody req resp cause. request_sent L c meth url payload reqBody req \<and>
        getDoer L c req = Inr resp \<and> resp_StatusCode resp \<noteq> 404 \<and>
        resp_Body resp = Inl cause \<and>
        e = Wrapped cause fmt_read [AStr meth, AStr url, ABytes reqBody]) \<or>
     (\<exists>reqBody req resp body verr. request_sent L c meth url payload reqBody req \<and>
        getDoer L c req = Inr resp \<and> resp_StatusCode resp \<noteq> 404 \<and>
        (resp_StatusCode resp < 200 \<or> 299 < resp_StatusCode resp) \<and>
        resp_Body resp = Inr body \<and>
        Unmarshal_APIError L body (zero_APIError L) = (None, verr) \<and>
        e = APIErr (verr\<lparr>StatusCode := resp_StatusCode resp\<rparr>)) \<or>
     (\<exists>reqBody req resp body cause verr. request_sent L c meth url payload reqBody req \<and>
        getDoer L c req = Inr resp \<and> resp_StatusCode resp \<noteq> 404 \<and>
        (resp_StatusCode resp < 200 \<or> 299 < resp_StatusCode resp) \<and>
        resp_Body resp = Inr body \<and>
        Unmarshal_APIError L body (zero_APIError L) = (Some cause, verr) \<and>
        e = Wrapped cause fmt_unmarshal [AInt (resp_StatusCode resp), ABytes body]) \<or>
     (\<exists>reqBody req resp body dst cause dst'. request_sent L c meth url payload reqBody req \<and>
        getDoer L c req = Inr resp \<and>
        200 \<le> resp_StatusCode resp \<and> resp_StatusCode resp \<le> 299 \<and>
        resp_Body resp = Inr body \<and> respObj = Some dst \<and>
        Unmarshal_respObj L body dst = (Some cause, dst') \<and>
        e = Wrapped cause fmt_unmarshal [AInt (resp_StatusCode resp), ABytes body])"
      by (rule Send_error_origin)
  next
    assume "(\<exists>p cause. payload = Some p \<and> json_Marshal L p = Inl cause \<and>
        e = Wrapped cause fmt_marshal []) \<or>
     (\<exists>reqBody cause.
        (case payload of None \<Rightarrow> Inr [] | Some p \<Rightarrow> json_Marshal L p) = Inr reqBody \<and>
        http_NewRequest L meth (ServiceAddress c @ url) reqBody = Inl cause \<and>
        e = Wrapped cause fmt_request [AStr meth, AStr url]) \<or>
     (\<exists>reqBody req cause. request_sent L c meth url payload reqBody req \<and>
        getDoer L c req = Inl cause \<and> e = Wrapped cause fmt_send []) \<or>
     (\<exists>reqBody req resp. request_sent L c meth url payload reqBody req \<and>
        getDoer L c req = Inr resp \<and> resp_StatusCode resp = 404 \<and> e = EntityNotFoundErr) \<or>
     (\<exists>reqBody req resp cause. request_sent L c meth url payload reqBody req \<and>
        getDoer L c req = Inr resp \<and> resp_StatusCode resp \<noteq> 404 \<and>
        resp_Body resp = Inl cause \<and>
        e = Wrapped cause fmt_read [AStr meth, AStr url, ABytes reqBody]) \<or>
     (\<exists>reqBody req resp body verr. request_sent L c meth url payload reqBody req \<and>
        getDoer L c req = Inr resp \<and> resp_StatusCode resp \<noteq> 404 \<and>
        (resp_StatusCode resp < 200 \<or> 299 < resp_StatusCode resp) \<and>
        resp_Body resp = Inr body \<and>
        Unmarshal_APIError L body (zero_APIError L) = (None, verr) \<and>
        e = APIErr (verr\<lparr>StatusCode := resp_StatusCode resp\<rparr>)) \<or>
     (\<exists>reqBody req resp body cause verr. request_sent L c meth url payload reqBody req \<and>
        getDoer L c req = Inr resp \<and> resp_StatusCode resp \<noteq> 404 \<and>
        (resp_StatusCode resp < 200 \<or> 299 < resp_StatusCode resp) \<and>
        resp_Body resp = Inr body \<and>
        Unmarshal_APIError L body (zero_APIError L) = (Some cause, verr) \<and>
        e = Wrapped cause fmt_unmarshal [AInt (resp_StatusCode resp), ABytes body]) \<or>
     (\<exists>reqBody req resp body dst cause dst'. request_sent L c meth url payload reqBody req \<and>
        getDoer L c req = Inr resp \<and>
        200 \<le> resp_StatusCode resp \<and> resp_StatusCode resp \<le> 299 \<and>
        resp_Body resp = Inr body \<and> respObj = Some dst \<and>
        Unmarshal_respObj L body dst = (Some cause, dst') \<and>
        e = Wrapped cause fmt_unmarshal [AInt (resp_StatusCode resp), ABytes body])"
    then show "err (Send L c meth url payload respObj) = Some e"
      by (elim disjE) (erule Send_returns_marshal, erule Send_returns_request, erule Send_returns_transport, erule Send_returns_notfound, erule Send_returns_read, erule Send_returns_apierror, erule Send_returns_apidecode, erule Send_returns_decode)
  qed
  have wrapped: "err (Send L c meth url payload respObj) = Some e \<longrightarrow>
     (call_site_context meth url e \<longleftrightarrow>
        (\<exists>cause. e = Wrapped cause fmt_request [AStr meth, AStr url]) \<or>
        (\<exists>cause body. e = Wrapped cause fmt_read [AStr meth, AStr url, ABytes body]))"
    using Send_error_context [of L c meth url payload respObj e] by blast
  have issued: "\<forall>req. Do req \<in> set (calls (Send L c meth url payload respObj)) \<longrightarrow>
      (\<exists>reqBody. request_sent L c meth url payload reqBody req)"
    using Send_calls_request [of _ L c meth url payload respObj] by blast
  show ?thesis
    by (intro conjI) (rule origin, rule wrapped, rule Send_once, rule issued)
qed

theorem Send_error_shapes_witness:
  "err (Send mock_lib failing_client ''GET'' ''/x'' None (None :: dest option))
     = Some (Wrapped (GoError ''connection refused'') fmt_send []) \<and>
   request_sent mock_lib failing_client ''GET'' ''/x'' None [] get_x \<and>
   getDoer mock_lib failing_client get_x = Inl (GoError ''connection refused'') \<and>
   calls (Send mock_lib failing_client ''GET'' ''/x'' None (None :: dest option)) = [Do get_x]"
  using Send_error_shapes [where L = mock_lib and c = failing_client
      and meth = "''GET''" and url = "''/x''" and payload = None
      and respObj = "None :: dest option"
      and e = "Wrapped (GoError ''connection refused'') fmt_send []"]
  by (simp add: Send_defs mock_defs failing_client_def request_sent_def)


subsection \<open>The destination\<close>






section \<open>Properties of the service\<close>

lemmas rw_defs = serve_def Encode_def Write_def WriteHeader_def Header_Set_def finishRequest_def
  new_ResponseWriter_def Let_def

lemmas mock_service_defs = mock_runtime_def mock_options_def apply_Options_def default_Options_def
  Name_def Version_def Param_def DependencyInfo_def

subsection \<open>The built-in endpoints\<close>

text \<open>
  \<open>NewService\<close> registers its three handlers after whatever the router of the options
  already holds.
\<close>

lemma NewService_serveMux:
  "serveMux (options (NewService rt opts)) =
     serveMux (apply_Options rt opts) @
       [(MethodGet, ''/health'', health_handler),
        (MethodGet, ''/info'', info_handler rt (apply_Options rt opts)),
        (MethodGet, ''/metrics'', promhttp_Handler rt)]"
  by (simp add: NewService_def mux_Add_def Add_def Let_def)

lemma range_loop_events:
  "fst (range_loop w kds (ev, dp)) = ev @ map (\<lambda>(n, d). ProbeCall n) kds"
  by (induction kds arbitrary: ev dp) auto

lemma range_loop_map:
  "distinct (map fst kds) \<Longrightarrow>
   snd (range_loop w kds (ev, dp)) k =
     (case map_of kds k of None \<Rightarrow> dp k | Some d \<Rightarrow> Some (IAny (d w)))"
proof (induction kds arbitrary: ev dp)
  case Nil
  then show ?case by simp
next
  case (Cons a kds)
  obtain n d where a: "a = (n, d)" by (cases a)
  from Cons.prems a have fresh: "map_of kds n = None" and rest: "distinct (map fst kds)"
    by (simp_all add: map_of_eq_None_iff)
  show ?case
    unfolding a using fresh by (simp add: Cons.IH [OF rest] split: option.splits)
qed

lemma range_loop_enumerates:
  assumes "enumerates kds m"
  shows "snd (range_loop w kds ([], Map.empty)) k = map_option (\<lambda>d. IAny (d w)) (m k)"
proof -
  from assms have "distinct (map fst kds)" and m: "map_of kds = m"
    by (simp_all add: enumerates_def)
  then show ?thesis
    by (simp add: range_loop_map split: option.splits)
qed

text \<open>
  C4. For every configuration, \<open>NewService\<close> registers under \<open>GET /health\<close> a handler
  that answers every request with status 200 and an empty body and calls no
  dependency probe.
\<close>

theorem health_response:
  "(MethodGet, ''/health'', health_handler) \<in> set (serveMux (options (NewService rt opts))) \<and>
   fst (serve health_handler w r) = [] \<and>
   status (snd (serve health_handler w r)) = 200 \<and>
   written (snd (serve health_handler w r)) = []"
  by (simp add: NewService_serveMux serve_def health_handler_def WriteHeader_def
      new_ResponseWriter_def finishRequest_def)

text \<open>
  C3, as stated, fails for a probe whose result the JSON encoder rejects: the handler
  drops the encoder's error, and the response has status 200 and an empty body.
\<close>

theorem info_response_counterexample:
  "status (snd (serve (info_handler mock_runtime (apply_Options mock_runtime chan_options)) 0
     get_info)) = 200 \<and>
   written (snd (serve (info_handler mock_runtime (apply_Options mock_runtime chan_options)) 0
     get_info)) = []"
  by (simp add: info_handler_def info_value_def rw_defs mock_runtime_def chan_options_def
      apply_Options_def default_Options_def Name_def DependencyInfo_def map_filter_simps
      mock_Encode_def)

text \<open>
  C3, amended. For every configuration, \<open>NewService\<close> registers under \<open>GET /info\<close> a
  handler that answers with status 200 and content type \<open>application/json\<close> and calls
  every configured probe once. When the JSON encoder accepts the value, the body is
  the encoding (and a newline) of a map with exactly the keys \<open>name\<close>, \<open>version\<close>,
  \<open>params\<close> and \<open>dependencies\<close>: the configured name, version and parameters, and a
  map with exactly the configured probe names, each mapped to what its probe returns in
  the world of the request. When the encoder rejects the value, the body is empty.
\<close>

theorem info_response:
  assumes "cfg = apply_Options rt opts"
      and "enumerates (range_order rt w (dependenciesInfo cfg)) (dependenciesInfo cfg)"
  shows "(MethodGet, ''/info'', info_handler rt cfg) \<in> set (serveMux (options (NewService rt opts))) \<and>
     status (snd (serve (info_handler rt cfg) w r)) = 200 \<and>
     sent_Header (snd (serve (info_handler rt cfg) w r)) ''content-type'' = Some ''application/json'' \<and>
     fst (serve (info_handler rt cfg) w r) =
       map (\<lambda>(n, d). ProbeCall n) (range_order rt w (dependenciesInfo cfg)) \<and>
     (\<exists>m dp.
        dom m = {''name'', ''version'', ''params'', ''dependencies''} \<and>
        m ''name'' = Some (IString (name cfg)) \<and>
        m ''version'' = Some (IString (version cfg)) \<and>
        m ''params'' = Some (IStrMap (params cfg)) \<and>
        m ''dependencies'' = Some (IMap dp) \<and>
        dom dp = dom (dependenciesInfo cfg) \<and>
        (\<forall>k d. dependenciesInfo cfg k = Some d \<longrightarrow> dp k = Some (IAny (d w))) \<and>
        written (snd (serve (info_handler rt cfg) w r)) =
          (case json_Encode rt (IMap m) of Inr bs \<Rightarrow> bs @ nl | Inl e \<Rightarrow> []))"
proof -
  let ?kds = "range_order rt w (dependenciesInfo cfg)"
  obtain ev dp where loop: "range_loop w ?kds ([], Map.empty) = (ev, dp)"
    by (cases "range_loop w ?kds ([], Map.empty)")
  have dp: "dp k = map_option (\<lambda>d. IAny (d w)) (dependenciesInfo cfg k)" for k
    using range_loop_enumerates [OF assms(2), of w k] loop by simp
  let ?m = "[''name'' \<mapsto> IString (name cfg), ''version'' \<mapsto> IString (version cfg),
             ''params'' \<mapsto> IStrMap (params cfg), ''dependencies'' \<mapsto> IMap dp]"
  let ?rw = "snd (serve (info_handler rt cfg) w r)"
  have reg: "(MethodGet, ''/info'', info_handler rt cfg) \<in> set (serveMux (options (NewService rt opts)))"
    by (simp add: NewService_serveMux assms(1))
  have st: "status ?rw = 200"
    by (simp add: serve_def info_handler_def loop Encode_def Write_def WriteHeader_def
        Header_Set_def finishRequest_def new_ResponseWriter_def Let_def split: sum.splits)
  have ct: "sent_Header ?rw ''content-type'' = Some ''application/json''"
    by (simp add: serve_def info_handler_def loop Encode_def Write_def WriteHeader_def
        Header_Set_def finishRequest_def new_ResponseWriter_def Let_def split: sum.splits)
  have body: "written ?rw = (case json_Encode rt (IMap ?m) of Inr bs \<Rightarrow> bs @ nl | Inl e \<Rightarrow> [])"
    by (simp add: serve_def info_handler_def info_value_def loop Encode_def Write_def
        WriteHeader_def Header_Set_def finishRequest_def new_ResponseWriter_def Let_def
        split: sum.splits)
  have evs: "fst (serve (info_handler rt cfg) w r) =
       map (\<lambda>(n, d). ProbeCall n) (range_order rt w (dependenciesInfo cfg))"
    using range_loop_events [of w ?kds "[]" Map.empty] loop
    by (simp add: serve_def info_handler_def Let_def)
  have dom_m: "dom ?m = {''name'', ''version'', ''params'', ''dependencies''}"
    by auto
  have dom_dp: "dom dp = dom (dependenciesInfo cfg)"
    by (auto simp: dp dom_def)
  have vals: "\<forall>k d. dependenciesInfo cfg k = Some d \<longrightarrow> dp k = Some (IAny (d w))"
    by (simp add: dp)
  have "dom ?m = {''name'', ''version'', ''params'', ''dependencies''} \<and>
        ?m ''name'' = Some (IString (name cfg)) \<and>
        ?m ''version'' = Some (IString (version cfg)) \<and>
        ?m ''params'' = Some (IStrMap (params cfg)) \<and>
        ?m ''dependencies'' = Some (IMap dp) \<and>
        dom dp = dom (dependenciesInfo cfg) \<and>
        (\<forall>k d. dependenciesInfo cfg k = Some d \<longrightarrow> dp k = Some (IAny (d w))) \<and>
        written ?rw = (case json_Encode rt (IMap ?m) of Inr bs \<Rightarrow> bs @ nl | Inl e \<Rightarrow> [])"
    using dom_m dom_dp vals body by simp
  then have ex: "\<exists>m dp.
        dom m = {''name'', ''version'', ''params'', ''dependencies''} \<and>
        m ''name'' = Some (IString (name cfg)) \<and>
        m ''version'' = Some (IString (version cfg)) \<and>
        m ''params'' = Some (IStrMap (params cfg)) \<and>
        m ''dependencies'' = Some (IMap dp) \<and>
        dom dp = dom (dependenciesInfo cfg) \<and>
        (\<forall>k d. dependenciesInfo cfg k = Some d \<longrightarrow> dp k = Some (IAny (d w))) \<and>
        written ?rw = (case json_Encode rt (IMap m) of Inr bs \<Rightarrow> bs @ nl | Inl e \<Rightarrow> [])"
    by (rule_tac x = ?m in exI, rule_tac x = dp in exI)
  show ?thesis
    by (intro conjI) (rule reg, rule st, rule ct, rule evs, rule ex)
qed

theorem info_response_witness:
  "enumerates
     (range_order mock_runtime 3 (dependenciesInfo (apply_Options mock_runtime mock_options)))
     (dependenciesInfo (apply_Options mock_runtime mock_options)) \<and>
   status (snd (serve (info_handler mock_runtime (apply_Options mock_runtime mock_options)) 3 get_info))
     = 200 \<and>
   sent_Header (snd (serve (info_handler mock_runtime (apply_Options mock_runtime mock_options)) 3
     get_info)) ''content-type'' = Some ''application/json'' \<and>
   written (snd (serve (info_handler mock_runtime (apply_Options mock_runtime mock_options)) 3
     get_info)) = ''{}'' @ nl"
proof -
  have e: "enumerates
     (range_order mock_runtime 3 (dependenciesInfo (apply_Options mock_runtime mock_options)))
     (dependenciesInfo (apply_Options mock_runtime mock_options))"
    by (simp add: enumerates_def mock_service_defs map_filter_simps)
  from e info_response [OF refl e, of get_info] show ?thesis
    by (simp add: info_handler_def info_value_def rw_defs mock_service_defs map_filter_simps
        mock_Encode_def)
qed

subsection \<open>Route registration\<close>

text \<open>
  C7. For every path and handler, \<open>Get\<close>, \<open>Post\<close>, \<open>Put\<close> and \<open>Del\<close> add to the
  router one registration of the handler wrapped by the service's API handler wrapper,
  under \<open>GET\<close>, \<open>POST\<close>, \<open>PUT\<close> and \<open>DELETE\<close> at that path, and \<open>Stream\<close> adds
  one of the handler wrapped by the streaming wrapper under \<open>GET\<close>. The wrappers of a
  service from \<open>NewService\<close> are the package's wrappers applied to the configured
  logger, and no registration changes them.
\<close>

theorem registration_methods:
  "serveMux (options (Get path h s)) = serveMux (options s) @ [(''GET'', path, s_wrapAPIHandler s h)] \<and>
   serveMux (options (Post path h s)) = serveMux (options s) @ [(''POST'', path, s_wrapAPIHandler s h)] \<and>
   serveMux (options (Put path h s)) = serveMux (options s) @ [(''PUT'', path, s_wrapAPIHandler s h)] \<and>
   serveMux (options (Del path h s)) = serveMux (options s) @ [(''DELETE'', path, s_wrapAPIHandler s h)] \<and>
   serveMux (options (Stream path sh s)) = serveMux (options s) @ [(''GET'', path, s_streamAPIHandler s sh)] \<and>
   s_wrapAPIHandler (NewService rt opts) = pkg_wrapAPIHandler rt (logger (apply_Options rt opts)) \<and>
   s_streamAPIHandler (NewService rt opts) =
     pkg_streamWrapAPIHandler rt (logger (apply_Options rt opts)) \<and>
   s_wrapAPIHandler (Get path h s) = s_wrapAPIHandler s \<and>
   s_wrapAPIHandler (Post path h s) = s_wrapAPIHandler s \<and>
   s_wrapAPIHandler (Put path h s) = s_wrapAPIHandler s \<and>
   s_wrapAPIHandler (Del path h s) = s_wrapAPIHandler s \<and>
   s_wrapAPIHandler (Stream path sh s) = s_wrapAPIHandler s \<and>
   s_streamAPIHandler (Get path h s) = s_streamAPIHandler s \<and>
   s_streamAPIHandler (Post path h s) = s_streamAPIHandler s \<and>
   s_streamAPIHandler (Put path h s) = s_streamAPIHandler s \<and>
   s_streamAPIHandler (Del path h s) = s_streamAPIHandler s \<and>
   s_streamAPIHandler (Stream path sh s) = s_streamAPIHandler s"
  by (simp add: Get_def Post_def Put_def Del_def Stream_def mux_Add_def Add_def NewService_def
      Let_def MethodGet_def MethodPost_def MethodPut_def MethodDelete_def)

subsection \<open>The API handler wrapper\<close>

text \<open>
  C8. For every valid JSON payload \<open>P\<close> (a non-empty body that decodes to a value
  \<open>v\<close>), the wrapped echo handler answers a request with body \<open>P\<close> with status 200,
  content type \<open>application/json\<close> and a body that decodes to \<open>v\<close>, the JSON library
  giving back what it encodes.
\<close>

theorem wrapAPIHandler_echo:
  assumes "P \<noteq> []"
      and "decode_body cd P = Inr v"
      and "json_roundtrip cd"
  shows "status (snd (serve (wrapAPIHandler cd log echo) w (r\<lparr>ReqBody := P\<rparr>))) = 200 \<and>
     sent_Header (snd (serve (wrapAPIHandler cd log echo) w (r\<lparr>ReqBody := P\<rparr>))) ''content-type''
       = Some ''application/json'' \<and>
     decode_body cd (written (snd (serve (wrapAPIHandler cd log echo) w (r\<lparr>ReqBody := P\<rparr>))))
       = Inr v"
proof -
  from assms(3) obtain bs where enc: "encode_value cd v = Inr bs" and dec: "decode_body cd bs = Inr v"
    unfolding json_roundtrip_def by blast
  from assms(1,2) enc
  have "serve (wrapAPIHandler cd log echo) w (r\<lparr>ReqBody := P\<rparr>)
          = ([], \<lparr>w_Header = [''content-type'' \<mapsto> ''application/json''], wroteHeader = True,
                  status = 200, sent_Header = [''content-type'' \<mapsto> ''application/json''],
                  written = bs\<rparr>)"
    by (simp add: wrapAPIHandler_def echo_def rw_defs)
  with dec show ?thesis by simp
qed

theorem wrapAPIHandler_echo_witness:
  "json_roundtrip bool_codec \<and>
   status (snd (serve (wrapAPIHandler bool_codec mock_log echo) (0::nat)
     (get_info\<lparr>ReqBody := ''true''\<rparr>))) = 200 \<and>
   decode_body bool_codec (written (snd (serve (wrapAPIHandler bool_codec mock_log echo) (0::nat)
     (get_info\<lparr>ReqBody := ''true''\<rparr>)))) = Inr True"
proof -
  have rt: "json_roundtrip bool_codec"
    by (simp add: json_roundtrip_def bool_codec_def)
  have p: "''true'' \<noteq> []" by simp
  have d: "decode_body bool_codec ''true'' = Inr True" by (simp add: bool_codec_def)
  from rt wrapAPIHandler_echo [OF p d rt, of mock_log "0::nat" get_info] show ?thesis
    by simp
qed

subsection \<open>Run\<close>

text \<open>
  C6. \<open>Run\<close> starts the listener once and returns after the listener has returned:
  when the listener returns nil or \<open>ErrServerClosed\<close> (a graceful shutdown) the start
  of the listener is the last thing \<open>Run\<close> does and no error is logged; when it
  returns another error (the port in use, say) \<open>Run\<close> does the same and then logs
  that error, once. The listener is not started again.
\<close>

theorem Run_returns_after_listener:
  "length (filter is_listen (Run s listen_err)) = 1 \<and>
   (listen_err = None \<or> listen_err = Some ErrServerClosed \<longrightarrow>
      last (Run s listen_err) = Server (listen_call s) \<and>
      filter is_error_log (Run s listen_err) = []) \<and>
   (\<forall>e. listen_err = Some e \<and> e \<noteq> ErrServerClosed \<longrightarrow>
      Run s listen_err = Run s (Some ErrServerClosed) @ [Logf (''[ERROR] %+v'' @ nl) [AErr e]] \<and>
      filter is_error_log (Run s listen_err) = [Logf (''[ERROR] %+v'' @ nl) [AErr e]])"
  by (auto simp: Run_def listen_call_def nl_def split: option.splits)

theorem Run_returns_after_listener_witness:
  "Run (NewService mock_runtime (mock_options @ [Port 8080]))
      (Some (GoError ''listen tcp :8080: bind: address already in use''))
     = [Logf (''[INFO] Start listening address :%v'' @ nl) [AInt 8080],
        SignalNotify [SIGINT, SIGTERM], GoWatcher, Server ListenAndServe,
        Logf (''[ERROR] %+v'' @ nl)
          [AErr (GoError ''listen tcp :8080: bind: address already in use'')]] \<and>
   Run (NewService mock_runtime (mock_options @ [Port 8080])) (Some ErrServerClosed)
     = [Logf (''[INFO] Start listening address :%v'' @ nl) [AInt 8080],
        SignalNotify [SIGINT, SIGTERM], GoWatcher, Server ListenAndServe]"
  using Run_returns_after_listener [of "NewService mock_runtime (mock_options @ [Port 8080])"
      "Some (GoError ''listen tcp :8080: bind: address already in use'')"]
    Run_returns_after_listener [of "NewService mock_runtime (mock_options @ [Port 8080])"
      "Some ErrServerClosed"]
  by (simp add: Run_def listen_call_def NewService_def mux_Add_def Add_def mock_service_defs
      Port_def notified_def Let_def)




end
